theory Spec2Isabelle
  imports Main "HOL-Library.AList"
begin

section \<open>Python values used by update\_shared\_libraries.py\<close>

text \<open>
  A Python \<^verbatim>\<open>str\<close> is a \<^typ>\<open>string\<close>: one \<^typ>\<open>char\<close> per code point, so the
  strings of the model are those whose code points are below 256. The contents of a binary file
  are a \<^typ>\<open>string\<close> as well, one \<^typ>\<open>char\<close> per byte.
\<close>

abbreviation LF :: char where
  "LF \<equiv> CHR 0x0A"

abbreviation CR :: char where
  "CR \<equiv> CHR 0x0D"

text \<open>\<^verbatim>\<open>str.lower\<close> on code points below 256: A-Z, and the Latin-1 capitals
  U+00C0..U+00DE except the multiplication sign U+00D7, move up by 32.\<close>

definition lower_char :: "char \<Rightarrow> char" where
  "lower_char c =
     (let n = (of_char c :: nat) in
      if (65 \<le> n \<and> n \<le> 90) \<or> (192 \<le> n \<and> n \<le> 222 \<and> n \<noteq> 215)
      then char_of (n + 32) else c)"

definition lower :: "string \<Rightarrow> string" where
  "lower s = map lower_char s"

text \<open>\<^verbatim>\<open>str.startswith(prefix)\<close>.\<close>

fun startswith :: "string \<Rightarrow> string \<Rightarrow> bool" where
  "startswith s [] = True"
| "startswith [] (p # ps) = False"
| "startswith (c # cs) (p # ps) = (c = p \<and> startswith cs ps)"

text \<open>\<^verbatim>\<open>s.rsplit(".", 1)[0]\<close>: the part before the last dot, or all of \<open>s\<close> when it has
  no dot.\<close>

definition rsplit_dot_head :: "string \<Rightarrow> string" where
  "rsplit_dot_head s =
     (if CHR ''.'' \<in> set s then rev (tl (dropWhile (\<lambda>c. c \<noteq> CHR ''.'') (rev s))) else s)"

text \<open>The line boundaries of \<^verbatim>\<open>str.splitlines\<close> among the code points below 256:
  \<^verbatim>\<open>\n \v \f \r \x1c \x1d \x1e \x85\<close> (and \<^verbatim>\<open>\r\n\<close> as one boundary).\<close>

definition is_linebreak :: "char \<Rightarrow> bool" where
  "is_linebreak c =
     (c \<in> set [CHR 0x0A, CHR 0x0B, CHR 0x0C, CHR 0x0D, CHR 0x1C, CHR 0x1D, CHR 0x1E, CHR 0x85])"

text \<open>\<^verbatim>\<open>s.splitlines(False)\<close>, as a scan that collects the current line (reversed) in
  \<open>acc\<close>. A last line is reported only when it is not empty.\<close>

fun splitlines_from :: "string \<Rightarrow> string \<Rightarrow> string list" where
  "splitlines_from acc [] = (if acc = [] then [] else [rev acc])"
| "splitlines_from acc [c] = (if is_linebreak c then [rev acc] else [rev (c # acc)])"
| "splitlines_from acc (c # d # cs) =
     (if c = CR \<and> d = LF then rev acc # splitlines_from [] cs
      else if is_linebreak c then rev acc # splitlines_from [] (d # cs)
      else splitlines_from (c # acc) (d # cs))"

definition splitlines :: "string \<Rightarrow> string list" where
  "splitlines s = splitlines_from [] s"

text \<open>A string without any line boundary of \<^verbatim>\<open>splitlines\<close>.\<close>

definition no_linebreak :: "string \<Rightarrow> bool" where
  "no_linebreak s = list_all (\<lambda>c. \<not> is_linebreak c) s"

text \<open>Reading a file opened in text mode (\<^verbatim>\<open>open(path, "r")\<close>, universal newlines):
  \<^verbatim>\<open>\r\n\<close> and a lone \<^verbatim>\<open>\r\<close> arrive as \<^verbatim>\<open>\n\<close>.\<close>

fun universal_newlines :: "string \<Rightarrow> string" where
  "universal_newlines [] = []"
| "universal_newlines [c] = (if c = CR then [LF] else [c])"
| "universal_newlines (c # d # cs) =
     (if c = CR \<and> d = LF then LF # universal_newlines cs
      else if c = CR then LF # universal_newlines (d # cs)
      else c # universal_newlines (d # cs))"

text \<open>Decimal digits and \<^verbatim>\<open>"%0<width>d" % n\<close> for a natural number.\<close>

definition digit_char :: "nat \<Rightarrow> char" where
  "digit_char d = ''0123456789'' ! (d mod 10)"

fun digits :: "nat \<Rightarrow> string" where
  "digits n = (if n < 10 then [digit_char n] else digits (n div 10) @ [digit_char n])"

declare digits.simps [simp del]

definition zero_pad :: "nat \<Rightarrow> nat \<Rightarrow> string" where
  "zero_pad width n = replicate (width - length (digits n)) CHR ''0'' @ digits n"

text \<open>A Python dict with \<^verbatim>\<open>str\<close> keys and \<^verbatim>\<open>Optional[str]\<close> values, in insertion
  order. A key bound to \<^verbatim>\<open>None\<close> is \<open>(k, None)\<close>; an absent key has no entry.\<close>

type_synonym pydict = "(string \<times> string option) list"

definition dict_has :: "pydict \<Rightarrow> string \<Rightarrow> bool" where
  "dict_has d k = (map_of d k \<noteq> None)"

text \<open>\<^verbatim>\<open>d.get(k)\<close>: the value, \<^verbatim>\<open>None\<close> also for an absent key.\<close>

definition dict_get :: "pydict \<Rightarrow> string \<Rightarrow> string option" where
  "dict_get d k = (case map_of d k of None \<Rightarrow> None | Some v \<Rightarrow> v)"

text \<open>The exceptions that leave a function of the module.\<close>

datatype exn = ValueError string | TypeError | OSError

section \<open>datetime\<close>

text \<open>
  A \<^verbatim>\<open>datetime\<close> object: its calendar fields and its UTC offset in microseconds
  (\<open>None\<close> for a naive datetime). \<^verbatim>\<open>toordinal\<close>, subtraction and \<^verbatim>\<open>isoformat\<close>
  follow CPython's \<^verbatim>\<open>datetime.py\<close>; a \<^verbatim>\<open>timedelta\<close> is its number of microseconds.
\<close>

record datetime =
  year :: nat
  month :: nat
  day :: nat
  hour :: nat
  minute :: nat
  second :: nat
  microsecond :: nat
  utcoffset :: "int option"

definition is_leap :: "nat \<Rightarrow> bool" where
  "is_leap y = (y mod 4 = 0 \<and> (y mod 100 \<noteq> 0 \<or> y mod 400 = 0))"

definition days_before_year :: "nat \<Rightarrow> int" where
  "days_before_year yr = (let y = int yr - 1 in y * 365 + y div 4 - y div 100 + y div 400)"

text \<open>A datetime object has its month in 1..12; the table is read there only.\<close>

definition days_before_month :: "nat \<Rightarrow> nat \<Rightarrow> int" where
  "days_before_month yr m =
     (if 1 \<le> m \<and> m \<le> 12
      then int ([0, 31, 59, 90, 120, 151, 181, 212, 243, 273, 304, 334] ! (m - 1)) else 0)
     + (if m > 2 \<and> is_leap yr then 1 else 0)"

definition toordinal :: "datetime \<Rightarrow> int" where
  "toordinal d = days_before_year (year d) + days_before_month (year d) (month d) + int (day d)"

definition day_seconds :: "datetime \<Rightarrow> int" where
  "day_seconds d = int (second d) + int (minute d) * 60 + int (hour d) * 3600"

text \<open>\<^verbatim>\<open>a - b\<close> on datetimes: the difference of the fields when both have the same
  offset, corrected by the offsets when both are aware, and a \<^verbatim>\<open>TypeError\<close> when one is
  naive and the other aware.\<close>

definition datetime_sub :: "datetime \<Rightarrow> datetime \<Rightarrow> exn + int" where
  "datetime_sub a b =
     (let base = ((toordinal a - toordinal b) * 86400 + (day_seconds a - day_seconds b)) * 1000000
                 + (int (microsecond a) - int (microsecond b))
      in if utcoffset a = utcoffset b then Inr base
         else (case utcoffset a of
                 None \<Rightarrow> Inl TypeError
               | Some myoff \<Rightarrow>
                   (case utcoffset b of
                      None \<Rightarrow> Inl TypeError
                    | Some otoff \<Rightarrow> Inr (base + otoff - myoff))))"

text \<open>\<^verbatim>\<open>CHECK_INTERVAL = timedelta(hours=24)\<close>.\<close>

definition CHECK_INTERVAL :: int where
  "CHECK_INTERVAL = 24 * 3600 * 1000000"

definition format_offset :: "int option \<Rightarrow> string" where
  "format_offset off =
     (case off of
        None \<Rightarrow> []
      | Some o1 \<Rightarrow>
          (let sign = (if o1 < 0 then ''-'' else ''+'');
               a = \<bar>o1\<bar>;
               hh = a div 3600000000;
               r = a mod 3600000000;
               mm = r div 60000000;
               ss = r mod 60000000
           in sign @ zero_pad 2 (nat hh) @ '':'' @ zero_pad 2 (nat mm)
              @ (if ss \<noteq> 0
                 then '':'' @ zero_pad 2 (nat (ss div 1000000))
                      @ (if ss mod 1000000 \<noteq> 0 then ''.'' @ zero_pad 6 (nat (ss mod 1000000))
                         else [])
                 else [])))"

text \<open>\<^verbatim>\<open>datetime.isoformat()\<close> with the default separator and time spec.\<close>

definition isoformat :: "datetime \<Rightarrow> string" where
  "isoformat d =
     zero_pad 4 (year d) @ ''-'' @ zero_pad 2 (month d) @ ''-'' @ zero_pad 2 (day d) @ ''T''
     @ zero_pad 2 (hour d) @ '':'' @ zero_pad 2 (minute d) @ '':'' @ zero_pad 2 (second d)
     @ (if microsecond d \<noteq> 0 then ''.'' @ zero_pad 6 (microsecond d) else [])
     @ format_offset (utcoffset d)"

section \<open>Platform Resolver\<close>

text \<open>\<^verbatim>\<open>get_dependency_filename\<close>, as a function of what \<^verbatim>\<open>platform.system()\<close> and
  \<^verbatim>\<open>platform.machine()\<close> return. The \<^verbatim>\<open>raise ValueError\<close> is the \<open>Inl\<close> result.\<close>

definition get_dependency_filename :: "string \<Rightarrow> string \<Rightarrow> exn + string" where
  "get_dependency_filename platform_system platform_machine =
     (let system = lower platform_system;
          machine = lower platform_machine
      in if system = ''windows'' then
           (if machine \<in> set [''amd64'', ''x86_64''] then Inr ''tls-client-windows-amd64.dll''
            else if machine \<in> set [''x86'', ''i386''] then Inr ''tls-client-windows-386.dll''
            else Inr ''tls-client-windows-amd64.dll'')
         else if system = ''linux'' then
           (if machine \<in> set [''amd64'', ''x86_64''] then Inr ''tls-client-linux-amd64.so''
            else if machine \<in> set [''arm64'', ''aarch64''] then Inr ''tls-client-linux-arm64.so''
            else Inr ''tls-client-linux-amd64.so'')
         else if system = ''darwin'' then
           (if machine \<in> set [''arm64'', ''aarch64''] then Inr ''tls-client-darwin-arm64.dylib''
            else Inr ''tls-client-darwin-amd64.dylib'')
         else Inl (ValueError (''Unsupported platform: '' @ system)))"

section \<open>The environment and the state of a run\<close>

text \<open>What \<^verbatim>\<open>dict.get(key, default)\<close> distinguishes: a key that is absent, for which it
  returns the default, and a key that is present, whose value it returns, also when that
  value is JSON \<^verbatim>\<open>null\<close>.\<close>

datatype 'a json_key = Absent | Present 'a

text \<open>The JSON of a release, with the fields the module reads. \<^verbatim>\<open>tag_name\<close> and the two
  fields of an asset are indexed directly by the source; \<^verbatim>\<open>published_at\<close> and
  \<^verbatim>\<open>assets\<close> are read with \<^verbatim>\<open>.get\<close>, so they may be absent. \<^verbatim>\<open>published_at\<close> is read
  with a default, so its three cases are kept apart: \<open>Absent\<close>, \<open>Present None\<close> for
  \<^verbatim>\<open>null\<close> and \<open>Present (Some s)\<close> for a string. \<^verbatim>\<open>assets\<close> is only tested for
  truth, where an absent key and \<^verbatim>\<open>null\<close> behave alike: both are \<open>None\<close>.\<close>

record asset =
  name :: string
  browser_download_url :: string

record release =
  tag_name :: string
  published_at :: "string option json_key"
  assets :: "asset list option"

text \<open>What the release endpoint answers: no answer at all (a \<^verbatim>\<open>RequestException\<close> of the
  connection), or a status, the body as JSON (\<open>None\<close> when it is not JSON, which
  \<^verbatim>\<open>response.json()\<close> reports as a \<^verbatim>\<open>RequestException\<close> in requests 2.27 and later) and
  the \<^verbatim>\<open>Etag\<close> header.\<close>

datatype http_response = ConnectionFailed | Response nat "release option" "string option"

text \<open>What the asset URL answers: \<open>Refused\<close> when \<^verbatim>\<open>session.get\<close> or
  \<^verbatim>\<open>raise_for_status\<close> raises, else the chunks \<^verbatim>\<open>iter_content\<close> delivers and whether
  the stream then ends normally (\<open>False\<close>: it raises after these chunks).\<close>

datatype download = Refused | Streamed "string list" bool

text \<open>A file operation either works or raises; when it raises, \<open>Fault r\<close> gives the state in
  which it leaves the file it was writing (\<open>None\<close>: no such file).\<close>

datatype fault = NoFault | Fault "string option"

text \<open>The lines the module prints, by the \<^verbatim>\<open>print\<close> statement and its arguments.\<close>

datatype message =
    NoAssetsFound
  | ErrorFetchingRelease
  | ErrorReadingVersionFile
  | ErrorSavingVersionFile
  | ErrorDownloadingFile
  | NoUpdateAvailable
  | NewVersionFound string
  | Downloading string string
  | SuccessfullyDownloaded string
  | UpdatedToVersion string
  | FailedToDownload string
  | CouldNotFindAsset string
  | AvailableAssets "string list"

text \<open>The network calls of a run: the GET of the release endpoint with the headers passed to
  it, and the GET of an asset URL.\<close>

datatype request = GetRelease pydict | GetAsset string

text \<open>
  What a run does not change: the host, the clock (one reading for the whole run), the
  library's timestamp parser \<^verbatim>\<open>datetime.fromisoformat\<close> (\<open>None\<close>: it raises
  \<^verbatim>\<open>ValueError\<close>), the answers of the remote side, and which file operations fail:
  \<^item> \<open>read_fails\<close>: opening or reading the record file raises (no permission, undecodable);
  \<^item> \<open>write_fault\<close>: writing the record file raises;
  \<^item> \<open>copy_fault\<close>: the backup copy \<^verbatim>\<open>shutil.copy2(dest_path, backup_path)\<close> raises;
  \<^item> \<open>open_fails\<close>: opening the temporary file raises;
  \<^item> \<open>move_fault\<close>: \<^verbatim>\<open>shutil.move(temp_path, dest_path)\<close> raises;
  \<^item> \<open>remove_fails\<close>: \<^verbatim>\<open>os.remove(backup_path)\<close> raises;
  \<^item> \<open>restore_fault\<close>: \<^verbatim>\<open>shutil.move(backup_path, dest_path)\<close> in the handler raises.

  Each of them answers the same way at every call of the run. Directories are not modelled, so
  \<^verbatim>\<open>os.makedirs(..., exist_ok=True)\<close> does nothing.
\<close>

record env =
  platform_system :: string
  platform_machine :: string
  TLS_CLIENT_PATH :: string
  GITHUB_TOKEN :: "string option"
  utcnow :: datetime
  fromisoformat :: "string \<Rightarrow> datetime option"
  release_response :: http_response
  asset_response :: download
  read_fails :: bool
  write_fault :: fault
  copy_fault :: fault
  open_fails :: bool
  move_fault :: fault
  remove_fails :: bool
  restore_fault :: fault

text \<open>What a run changes: the files (path to content), the printed lines and the network
  calls made so far.\<close>

record world =
  files :: "string \<rightharpoonup> string"
  stdout :: "message list"
  sent :: "request list"

definition py_print :: "message \<Rightarrow> world \<Rightarrow> world" where
  "py_print m w = w\<lparr>stdout := stdout w @ [m]\<rparr>"

text \<open>\<^verbatim>\<open>datetime.now(timezone.utc)\<close>.\<close>

definition datetime_now_utc :: "env \<Rightarrow> datetime" where
  "datetime_now_utc e = (utcnow e)\<lparr>utcoffset := Some 0\<rparr>"

text \<open>\<^verbatim>\<open>os.path.join(a, b)\<close> of \<^verbatim>\<open>posixpath\<close>.\<close>

definition path_join :: "string \<Rightarrow> string \<Rightarrow> string" where
  "path_join a b =
     (if startswith b ''/'' then b
      else if a = [] \<or> last a = CHR ''/'' then a @ b
      else a @ ''/'' @ b)"

definition DEPENDENCIES_DIR :: "env \<Rightarrow> string" where
  "DEPENDENCIES_DIR e = path_join (TLS_CLIENT_PATH e) ''dependencies''"

definition LOCAL_VERSION_FILE :: "env \<Rightarrow> string" where
  "LOCAL_VERSION_FILE e = path_join (DEPENDENCIES_DIR e) ''version.txt''"

section \<open>Version Store\<close>

definition read_local_version :: "env \<Rightarrow> world \<Rightarrow> pydict option \<times> world" where
  "read_local_version e w =
     (case files w (LOCAL_VERSION_FILE e) of
        None \<Rightarrow> (None, w)
      | Some content \<Rightarrow>
          if read_fails e then (None, py_print ErrorReadingVersionFile w)
          else (let lines = splitlines (universal_newlines content)
                in if length lines \<ge> 3
                   then (Some [(''version'', Some (lines ! 0)),
                               (''last_modified'', Some (lines ! 1)),
                               (''last_check'', Some (lines ! 2)),
                               (''Etag'', if length lines \<ge> 4 then Some (lines ! 3) else None)],
                         w)
                   else (None, w)))"

text \<open>The text \<^verbatim>\<open>save_local_version\<close> writes: the first \<^verbatim>\<open>f.write\<close>, and the second
  one under \<^verbatim>\<open>if etag:\<close> (a token that is \<^verbatim>\<open>None\<close> or empty is not written).\<close>

definition version_file_text :: "string \<Rightarrow> string \<Rightarrow> string \<Rightarrow> string option \<Rightarrow> string" where
  "version_file_text version last_modified now etag =
     version @ [LF] @ last_modified @ [LF] @ now
     @ (case etag of
          None \<Rightarrow> []
        | Some t \<Rightarrow> if t \<noteq> [] then [LF] @ t else [])"

definition save_local_version :: "env \<Rightarrow> string \<Rightarrow> string \<Rightarrow> string option \<Rightarrow> world \<Rightarrow> world" where
  "save_local_version e version last_modified etag w =
     (let now = isoformat (datetime_now_utc e)
      in case write_fault e of
           NoFault \<Rightarrow>
             w\<lparr>files := (files w)(LOCAL_VERSION_FILE e \<mapsto>
                            version_file_text version last_modified now etag)\<rparr>
         | Fault r \<Rightarrow>
             py_print ErrorSavingVersionFile (w\<lparr>files := (files w)(LOCAL_VERSION_FILE e := r)\<rparr>))"

definition should_check_update :: "env \<Rightarrow> world \<Rightarrow> bool \<times> world" where
  "should_check_update e w =
     (case read_local_version e w of
        (None, w1) \<Rightarrow> (True, w1)
      | (Some local_version_info, w1) \<Rightarrow>
          if local_version_info = [] \<or> \<not> dict_has local_version_info ''last_check''
          then (True, w1)
          else (case dict_get local_version_info ''last_check'' of
                  None \<Rightarrow> (True, w1)
                | Some s \<Rightarrow>
                    (case fromisoformat e s of
                       None \<Rightarrow> (True, w1)
                     | Some last_check \<Rightarrow>
                         (case datetime_sub (datetime_now_utc e) last_check of
                            Inl x \<Rightarrow> (True, w1)
                          | Inr delta \<Rightarrow> (delta > CHECK_INTERVAL, w1)))))"

section \<open>Release Fetcher\<close>

text \<open>The \<^verbatim>\<open>headers\<close> dict of \<^verbatim>\<open>get_latest_release\<close>, from the record it has read.\<close>

definition request_headers :: "env \<Rightarrow> pydict option \<Rightarrow> pydict" where
  "request_headers e local_version_info =
     (let headers0 = [];
          headers1 = (case GITHUB_TOKEN e of
                        None \<Rightarrow> headers0
                      | Some github_token \<Rightarrow>
                          if github_token \<noteq> []
                          then AList.update ''Authorization'' (Some (''Bearer '' @ github_token)) headers0
                          else headers0)
      in case local_version_info of
           None \<Rightarrow> headers1
         | Some info \<Rightarrow>
             if info \<noteq> [] \<and> dict_has info ''Etag''
             then AList.update ''If-None-Match'' (dict_get info ''Etag'') headers1
             else headers1)"

definition get_latest_release :: "env \<Rightarrow> world \<Rightarrow> (release \<times> string option) option \<times> world" where
  "get_latest_release e w =
     (case read_local_version e w of
        (local_version_info, w1) \<Rightarrow>
          (let w2 = w1\<lparr>sent := sent w1 @ [GetRelease (request_headers e local_version_info)]\<rparr>
           in case release_response e of
                ConnectionFailed \<Rightarrow> (None, py_print ErrorFetchingRelease w2)
              | Response status body etag \<Rightarrow>
                  if status = 304 then (None, w2)
                  else if 400 \<le> status \<and> status < 600 then (None, py_print ErrorFetchingRelease w2)
                  else (case body of
                          None \<Rightarrow> (None, py_print ErrorFetchingRelease w2)
                        | Some latest_release \<Rightarrow>
                            (case assets latest_release of
                               None \<Rightarrow> (None, py_print NoAssetsFound w2)
                             | Some a \<Rightarrow>
                                 if a = [] then (None, py_print NoAssetsFound w2)
                                 else (Some (latest_release, etag), w2)))))"

section \<open>Artifact Installer\<close>

text \<open>The \<^verbatim>\<open>try\<close> block of \<^verbatim>\<open>download_file\<close>: \<open>True\<close> when it reaches
  \<^verbatim>\<open>return True\<close>, \<open>False\<close> when a statement raises.\<close>

definition download_try :: "env \<Rightarrow> string \<Rightarrow> string \<Rightarrow> world \<Rightarrow> bool \<times> world" where
  "download_try e url dest_path w =
     (let backup_path = dest_path @ ''.backup'';
          temp_path = dest_path @ ''.tmp'';
          w1 = w\<lparr>sent := sent w @ [GetAsset url]\<rparr>
      in case asset_response e of
           Refused \<Rightarrow> (False, w1)
         | Streamed chunks complete \<Rightarrow>
             (case (case files w1 dest_path of
                      None \<Rightarrow> (True, w1)
                    | Some old \<Rightarrow>
                        (case copy_fault e of
                           NoFault \<Rightarrow> (True, w1\<lparr>files := (files w1)(backup_path \<mapsto> old)\<rparr>)
                         | Fault r \<Rightarrow> (False, w1\<lparr>files := (files w1)(backup_path := r)\<rparr>))) of
                (False, w2) \<Rightarrow> (False, w2)
              | (True, w2) \<Rightarrow>
                  if open_fails e then (False, w2)
                  else (let w3 = w2\<lparr>files := (files w2)(temp_path \<mapsto> concat chunks)\<rparr>
                        in if \<not> complete then (False, w3)
                           else (case move_fault e of
                                   Fault r \<Rightarrow> (False, w3\<lparr>files := (files w3)(dest_path := r)\<rparr>)
                                 | NoFault \<Rightarrow>
                                     (let w4 = w3\<lparr>files := (files w3)(dest_path \<mapsto> concat chunks,
                                                                       temp_path := None)\<rparr>
                                      in if files w4 backup_path \<noteq> None
                                         then (if remove_fails e then (False, w4)
                                               else (True, w4\<lparr>files := (files w4)(backup_path := None)\<rparr>))
                                         else (True, w4))))))"

text \<open>\<^verbatim>\<open>download_file\<close>: the \<^verbatim>\<open>try\<close> block, then the handler. The move that restores the
  backup stands in the handler, outside any \<^verbatim>\<open>try\<close>: when it raises, the exception leaves
  \<^verbatim>\<open>download_file\<close>.\<close>

definition download_file :: "env \<Rightarrow> string \<Rightarrow> string \<Rightarrow> world \<Rightarrow> (exn + bool) \<times> world" where
  "download_file e url dest_path w =
     (case download_try e url dest_path w of
        (True, w1) \<Rightarrow> (Inr True, w1)
      | (False, w1) \<Rightarrow>
          (let backup_path = dest_path @ ''.backup'';
               w2 = py_print ErrorDownloadingFile w1
           in case files w2 backup_path of
                None \<Rightarrow> (Inr False, w2)
              | Some saved \<Rightarrow>
                  (case restore_fault e of
                     NoFault \<Rightarrow>
                       (Inr False, w2\<lparr>files := (files w2)(dest_path \<mapsto> saved, backup_path := None)\<rparr>)
                   | Fault r \<Rightarrow> (Inl OSError, w2\<lparr>files := (files w2)(dest_path := r)\<rparr>))))"

section \<open>Update Orchestrator\<close>

text \<open>\<^verbatim>\<open>latest_release.get("published_at", datetime.now(timezone.utc).isoformat())\<close>: the
  value of the key when the release has it, which is \<open>None\<close> for \<^verbatim>\<open>null\<close>, and the
  clock's timestamp only when the key is absent.\<close>

definition published_at_or_now :: "env \<Rightarrow> release \<Rightarrow> string option" where
  "published_at_or_now e latest_release =
     (case published_at latest_release of
        Absent \<Rightarrow> Some (isoformat (datetime_now_utc e))
      | Present v \<Rightarrow> v)"

text \<open>How the f-string of \<^verbatim>\<open>save_local_version\<close> formats the \<^verbatim>\<open>last_modified\<close> it is
  given: a string as itself, \<^verbatim>\<open>None\<close> as the four characters \<^verbatim>\<open>None\<close>.
  \<open>save_local_version\<close> above takes the formatted text, so its callers format.\<close>

definition str_of :: "string option \<Rightarrow> string" where
  "str_of v = (case v of None \<Rightarrow> ''None'' | Some s \<Rightarrow> s)"

text \<open>The \<^verbatim>\<open>for asset in assets\<close> loop of \<^verbatim>\<open>update_lib\<close>: \<open>Some r\<close> when the body
  returns \<open>r\<close> (or raises), \<open>None\<close> when the loop ends without a return, which leaves
  \<^verbatim>\<open>found_asset\<close> false.\<close>

fun update_lib_loop ::
  "env \<Rightarrow> string \<Rightarrow> string \<Rightarrow> string option \<Rightarrow> string option \<Rightarrow> asset list \<Rightarrow> world
     \<Rightarrow> (exn + bool) option \<times> world" where
  "update_lib_loop e cur latest_version last_modified etag [] w = (None, w)"
| "update_lib_loop e cur latest_version last_modified etag (a # rest) w =
     (if startswith (name a) (rsplit_dot_head cur) then
        (let download_url = browser_download_url a;
             dest_path = path_join (DEPENDENCIES_DIR e) cur;
             w1 = py_print (Downloading cur download_url) w
         in case download_file e download_url dest_path w1 of
              (Inl x, w2) \<Rightarrow> (Some (Inl x), w2)
            | (Inr True, w2) \<Rightarrow>
                (Some (Inr True),
                 py_print (UpdatedToVersion latest_version)
                   (save_local_version e latest_version (str_of last_modified) etag
                      (py_print (SuccessfullyDownloaded cur) w2)))
            | (Inr False, w2) \<Rightarrow> (Some (Inr False), py_print (FailedToDownload cur) w2))
      else update_lib_loop e cur latest_version last_modified etag rest w)"

text \<open>\<^verbatim>\<open>update_lib(force)\<close>. The module constant \<^verbatim>\<open>CURRENT_DEPENDENCY_FILENAME\<close> is
  the argument \<open>cur\<close>. \<^verbatim>\<open>get_latest_release\<close> returns a release only with a non-empty
  \<^verbatim>\<open>assets\<close> list, so \<^verbatim>\<open>latest_release["assets"]\<close> finds the key.\<close>

definition update_lib :: "env \<Rightarrow> string \<Rightarrow> bool \<Rightarrow> world \<Rightarrow> (exn + bool) \<times> world" where
  "update_lib e cur force w =
     (case (if force then (True, w) else should_check_update e w) of
        (False, w1) \<Rightarrow> (Inr True, w1)
      | (True, w1) \<Rightarrow>
          (case get_latest_release e w1 of
             (None, w2) \<Rightarrow> (Inr True, if force then py_print NoUpdateAvailable w2 else w2)
           | (Some (latest_release, etag), w2) \<Rightarrow>
               (let latest_version = tag_name latest_release;
                    last_modified = published_at_or_now e latest_release
                in case read_local_version e w2 of
                     (local_version_info, w3) \<Rightarrow>
                       if \<not> force
                          \<and> (case local_version_info of
                                None \<Rightarrow> False
                              | Some info \<Rightarrow>
                                  info \<noteq> [] \<and> Some latest_version = dict_get info ''version'')
                       then (Inr True,
                             save_local_version e latest_version (str_of last_modified) etag w3)
                       else (let w4 = py_print (NewVersionFound latest_version) w3;
                                 all_assets = (case assets latest_release of
                                                 None \<Rightarrow> []
                                               | Some a \<Rightarrow> a)
                             in case update_lib_loop e cur latest_version last_modified etag
                                       all_assets w4 of
                                  (Some r, w5) \<Rightarrow> (r, w5)
                                | (None, w5) \<Rightarrow>
                                    (Inr False,
                                     py_print (AvailableAssets (map name all_assets))
                                       (py_print (CouldNotFindAsset cur) w5))))))"

text \<open>Loading the module and calling \<^verbatim>\<open>update_lib\<close>: the module computes
  \<^verbatim>\<open>CURRENT_DEPENDENCY_FILENAME = get_dependency_filename()\<close> when it is loaded, so on an
  unsupported platform the \<^verbatim>\<open>ValueError\<close> is raised before anything else happens.\<close>

definition run_module :: "env \<Rightarrow> bool \<Rightarrow> world \<Rightarrow> (exn + bool) \<times> world" where
  "run_module e force w =
     (case get_dependency_filename (platform_system e) (platform_machine e) of
        Inl x \<Rightarrow> (Inl x, w)
      | Inr cur \<Rightarrow> update_lib e cur force w)"

section \<open>A concrete host for the examples\<close>

text \<open>\<^verbatim>\<open>datetime.fromisoformat\<close> on the three timestamps of the examples: two aware ones
  (offset zero) and a naive one. Every other string is refused.\<close>

definition example_fromisoformat :: "string \<Rightarrow> datetime option" where
  "example_fromisoformat s =
     (if s = ''2024-01-01T00:00:00+00:00''
      then Some \<lparr>year = 2024, month = 1, day = 1, hour = 0, minute = 0, second = 0,
                 microsecond = 0, utcoffset = Some 0\<rparr>
      else if s = ''2024-01-02T12:00:00+00:00''
      then Some \<lparr>year = 2024, month = 1, day = 2, hour = 12, minute = 0, second = 0,
                 microsecond = 0, utcoffset = Some 0\<rparr>
      else if s = ''2024-01-02T12:00:00''
      then Some \<lparr>year = 2024, month = 1, day = 2, hour = 12, minute = 0, second = 0,
                 microsecond = 0, utcoffset = None\<rparr>
      else None)"

definition example_release :: release where
  "example_release =
     \<lparr>tag_name = ''v1.2.0'', published_at = Present (Some ''2024-01-02T09:00:00Z''),
      assets = Some [\<lparr>name = ''tls-client-linux-arm64-1.2.0.so'',
                      browser_download_url = ''https://example.org/arm64''\<rparr>,
                     \<lparr>name = ''tls-client-linux-amd64-1.2.0.so'',
                      browser_download_url = ''https://example.org/amd64''\<rparr>,
                     \<lparr>name = ''tls-client-linux-amd64-debug.so'',
                      browser_download_url = ''https://example.org/debug''\<rparr>]\<rparr>"

text \<open>A Linux host on 2024-01-03 00:00:00 UTC, where every file operation works, the release
  endpoint answers 200 with \<open>example_release\<close> and the asset arrives in two chunks.\<close>

definition example_env :: env where
  "example_env =
     \<lparr>platform_system = ''Linux'', platform_machine = ''x86_64'',
      TLS_CLIENT_PATH = ''/opt/tls_client'', GITHUB_TOKEN = None,
      utcnow = \<lparr>year = 2024, month = 1, day = 3, hour = 0, minute = 0, second = 0,
                 microsecond = 0, utcoffset = Some 0\<rparr>,
      fromisoformat = example_fromisoformat,
      release_response = Response 200 (Some example_release) (Some ''etag-2''),
      asset_response = Streamed [''NEW-'', ''BINARY''] True,
      read_fails = False, write_fault = NoFault, copy_fault = NoFault, open_fails = False,
      move_fault = NoFault, remove_fails = False, restore_fault = NoFault\<rparr>"

text \<open>A state with a record file (version, a fixed last\_modified, last\_check and the token
  \<^verbatim>\<open>etag-1\<close>) and an installed binary.\<close>

definition example_world :: "string \<Rightarrow> string \<Rightarrow> world" where
  "example_world version last_check =
     \<lparr>files = [''/opt/tls_client/dependencies/version.txt'' \<mapsto>
                  version_file_text version ''2023-12-01T00:00:00Z'' last_check (Some ''etag-1''),
                ''/opt/tls_client/dependencies/tls-client-linux-amd64.so'' \<mapsto> ''OLD-BINARY''],
      stdout = [], sent = []\<rparr>"

text \<open>The same state with a record last checked 48 hours before the clock of the host.\<close>

definition due_world :: world where
  "due_world = example_world ''v1.1.0'' ''2024-01-01T00:00:00+00:00''"

text \<open>The host when the release endpoint answers 304 Not Modified.\<close>

definition not_modified_env :: env where
  "not_modified_env = example_env\<lparr>release_response := Response 304 None (Some ''etag-1'')\<rparr>"

text \<open>The host when the release endpoint answers 200 with a release that lists no asset.\<close>

definition no_assets_env :: env where
  "no_assets_env =
     example_env\<lparr>release_response :=
                    Response 200 (Some (example_release\<lparr>assets := Some []\<rparr>)) (Some ''etag-2'')\<rparr>"

text \<open>A state whose record file has three lines only: no token was ever stored.\<close>

definition no_token_world :: world where
  "no_token_world =
     \<lparr>files = [''/opt/tls_client/dependencies/version.txt'' \<mapsto>
                  version_file_text ''v1.1.0'' ''2023-12-01T00:00:00Z''
                    ''2024-01-01T00:00:00+00:00'' None],
      stdout = [], sent = []\<rparr>"

text \<open>A state whose record already has the version of \<open>example_release\<close>, last checked
  48 hours before the clock of the host.\<close>

definition same_version_world :: world where
  "same_version_world = example_world ''v1.2.0'' ''2024-01-01T00:00:00+00:00''"

text \<open>The host when the record file of \<open>same_version_world\<close> is read-only: it can be read, and
  opening it for writing raises and leaves it as it is.\<close>

definition readonly_record_env :: env where
  "readonly_record_env =
     example_env\<lparr>write_fault :=
                    Fault (Some (version_file_text ''v1.2.0'' ''2023-12-01T00:00:00Z''
                                   ''2024-01-01T00:00:00+00:00'' (Some ''etag-1'')))\<rparr>"

text \<open>The host when the release endpoint answers 200 with a release whose
  \<^verbatim>\<open>published_at\<close> is \<^verbatim>\<open>null\<close>.\<close>

definition null_published_env :: env where
  "null_published_env =
     example_env\<lparr>release_response :=
                    Response 200 (Some (example_release\<lparr>published_at := Present None\<rparr>))
                      (Some ''etag-2'')\<rparr>"

text \<open>The installed binary of the example states.\<close>

definition example_dest :: string where
  "example_dest = ''/opt/tls_client/dependencies/tls-client-linux-amd64.so''"

text \<open>The host when the stream of the asset breaks after its first chunk.\<close>

definition broken_stream_env :: env where
  "broken_stream_env = example_env\<lparr>asset_response := Streamed [''NEW-''] False\<rparr>"

text \<open>The host when the move of the temporary file fails half way, leaving a partial
  destination, and the restoring move works.\<close>

definition failed_move_env :: env where
  "failed_move_env = example_env\<lparr>move_fault := Fault (Some ''NEW-'')\<rparr>"

text \<open>The host when the destination cannot be replaced (the library is loaded and locked, as
  on Windows): the move of the temporary file and the restoring move both raise and leave the
  destination as it is.\<close>

definition locked_dest_env :: env where
  "locked_dest_env =
     example_env\<lparr>move_fault := Fault (Some ''OLD-BINARY''),
                  restore_fault := Fault (Some ''OLD-BINARY'')\<rparr>"

text \<open>The host when the device fails: the move of the temporary file leaves a partial
  destination, and the restoring move truncates the destination and raises.\<close>

definition failing_disk_env :: env where
  "failing_disk_env =
     example_env\<lparr>move_fault := Fault (Some ''NEW-''), restore_fault := Fault (Some [])\<rparr>"

section \<open>Auxiliary facts\<close>

subsection \<open>Lines and timestamps\<close>

lemma no_linebreak_simps [simp]:
  "no_linebreak []"
  "no_linebreak (c # s) = (\<not> is_linebreak c \<and> no_linebreak s)"
  "no_linebreak (s @ t) = (no_linebreak s \<and> no_linebreak t)"
  by (simp_all add: no_linebreak_def)

lemma is_linebreak_LF [simp]: "is_linebreak LF"
  by (simp add: is_linebreak_def)

lemma is_linebreak_CR [simp]: "is_linebreak CR"
  by (simp add: is_linebreak_def)

lemma no_linebreak_no_CR: "no_linebreak s \<Longrightarrow> CR \<notin> set s"
  by (induction s) auto

lemma universal_newlines_id: "CR \<notin> set s \<Longrightarrow> universal_newlines s = s"
  by (induction s rule: universal_newlines.induct) auto

lemma splitlines_from_line:
  "no_linebreak a \<Longrightarrow> splitlines_from acc (a @ LF # r) = (rev acc @ a) # splitlines_from [] r"
proof (induction a arbitrary: acc)
  case Nil
  show ?case by (cases r) simp_all
next
  case (Cons x xs)
  then have x: "\<not> is_linebreak x" and xs: "no_linebreak xs" by simp_all
  from x have "x \<noteq> CR" by auto
  with x have "splitlines_from acc (x # xs @ LF # r) = splitlines_from (x # acc) (xs @ LF # r)"
    by (cases "xs @ LF # r") simp_all
  then show ?case using Cons.IH [OF xs, of "x # acc"] by simp
qed

lemma splitlines_from_last:
  "no_linebreak a \<Longrightarrow> a \<noteq> [] \<or> acc \<noteq> [] \<Longrightarrow> splitlines_from acc a = [rev acc @ a]"
proof (induction a arbitrary: acc)
  case Nil
  then show ?case by simp
next
  case (Cons x xs)
  then have x: "\<not> is_linebreak x" and xs: "no_linebreak xs" by simp_all
  show ?case
  proof (cases xs)
    case Nil
    then show ?thesis using x by simp
  next
    case (Cons y ys)
    then have "splitlines_from acc (x # xs) = splitlines_from (x # acc) xs"
      using x by auto
    then show ?thesis using Cons.IH [OF xs, of "x # acc"] by simp
  qed
qed

lemma splitlines_version_file_text:
  assumes "no_linebreak v" "no_linebreak m" "no_linebreak now" "now \<noteq> []"
    and "case t of None \<Rightarrow> True | Some s \<Rightarrow> no_linebreak s"
  shows "splitlines (universal_newlines (version_file_text v m now t)) =
           [v, m, now] @ (case t of None \<Rightarrow> [] | Some s \<Rightarrow> if s \<noteq> [] then [s] else [])"
proof -
  let ?txt = "version_file_text v m now t"
  have "CR \<notin> set ?txt"
    using assms no_linebreak_no_CR
    by (auto simp: version_file_text_def split: option.splits)
  then have u: "universal_newlines ?txt = ?txt" by (rule universal_newlines_id)
  show ?thesis
  proof (cases "\<exists>s. t = Some s \<and> s \<noteq> []")
    case True
    then obtain s where s: "t = Some s" "s \<noteq> []" by blast
    with assms have "no_linebreak s" by simp
    then show ?thesis
      using assms s unfolding u splitlines_def
      by (simp add: version_file_text_def splitlines_from_line splitlines_from_last)
  next
    case False
    then have "version_file_text v m now t = v @ LF # m @ LF # now"
      by (auto simp: version_file_text_def split: option.splits)
    then show ?thesis
      using assms False unfolding u splitlines_def
      by (auto simp: splitlines_from_line splitlines_from_last split: option.splits)
  qed
qed

lemma digits_small: "n < 10 \<Longrightarrow> digits n = [digit_char n]"
  by (subst digits.simps) simp

lemma digits_large: "\<not> n < 10 \<Longrightarrow> digits n = digits (n div 10) @ [digit_char n]"
  by (subst digits.simps) simp

lemma digit_char_in: "digit_char d \<in> set ''0123456789''"
  unfolding digit_char_def by (rule nth_mem) simp

lemma digits_set: "set (digits n) \<subseteq> set ''0123456789''"
proof (induction n rule: digits.induct)
  case (1 n)
  show ?case
  proof (cases "n < 10")
    case True
    then show ?thesis using digit_char_in [of n] by (simp add: digits_small)
  next
    case False
    then show ?thesis using 1 digit_char_in [of n] by (simp add: digits_large)
  qed
qed

lemma zero_pad_set: "set (zero_pad k n) \<subseteq> set ''0123456789''"
  using digits_set [of n] by (auto simp: zero_pad_def)

lemma zero_pad_nonempty: "zero_pad k n \<noteq> []"
  by (cases "n < 10") (simp_all add: zero_pad_def digits_small digits_large)

lemma no_linebreak_subset:
  "set s \<subseteq> set ''0123456789-T:.+'' \<Longrightarrow> no_linebreak s"
  by (auto simp: no_linebreak_def list_all_iff is_linebreak_def)

lemma format_offset_set: "set (format_offset off) \<subseteq> set ''0123456789-T:.+''"
  by (cases off) (auto simp: format_offset_def Let_def dest!: subsetD [OF zero_pad_set])

lemma isoformat_set: "set (isoformat d) \<subseteq> set ''0123456789-T:.+''"
  using format_offset_set [of "utcoffset d"]
  by (auto simp: isoformat_def dest!: subsetD [OF zero_pad_set])

lemma isoformat_no_linebreak: "no_linebreak (isoformat d)"
  by (rule no_linebreak_subset) (rule isoformat_set)

lemma isoformat_nonempty: "isoformat d \<noteq> []"
  by (simp add: isoformat_def zero_pad_nonempty)

subsection \<open>What reading the record changes\<close>

lemma read_local_version_files [simp]:
  "files (snd (read_local_version e w)) = files w"
  by (simp add: read_local_version_def py_print_def Let_def split: option.splits)

lemma read_local_version_sent [simp]:
  "sent (snd (read_local_version e w)) = sent w"
  by (simp add: read_local_version_def py_print_def Let_def split: option.splits)

lemma read_local_version_Some_world:
  "fst (read_local_version e w) = Some d \<Longrightarrow> snd (read_local_version e w) = w"
  by (simp add: read_local_version_def py_print_def Let_def split: option.splits if_splits)

lemma read_local_version_cong:
  "files w' (LOCAL_VERSION_FILE e) = files w (LOCAL_VERSION_FILE e)
   \<Longrightarrow> fst (read_local_version e w') = fst (read_local_version e w)"
  by (simp add: read_local_version_def py_print_def Let_def split: option.splits)

lemma read_local_version_of_text:
  assumes "files w (LOCAL_VERSION_FILE e) = Some (version_file_text v m lc t)"
    and "\<not> read_fails e"
    and "no_linebreak v" "no_linebreak m" "no_linebreak lc" "lc \<noteq> []"
    and "case t of None \<Rightarrow> True | Some s \<Rightarrow> no_linebreak s"
  shows "read_local_version e w =
           (Some [(''version'', Some v), (''last_modified'', Some m), (''last_check'', Some lc),
                  (''Etag'', case t of None \<Rightarrow> None | Some s \<Rightarrow> if s \<noteq> [] then Some s else None)],
            w)"
  using assms(1,2) splitlines_version_file_text [OF assms(3,4,5,6,7)]
  by (auto simp: read_local_version_def Let_def split: option.splits)

lemma should_check_update_world:
  "snd (should_check_update e w) = snd (read_local_version e w)"
  by (simp add: should_check_update_def split: prod.splits option.splits sum.splits)

lemma should_check_update_False_read:
  "\<not> fst (should_check_update e w) \<Longrightarrow> \<exists>d. fst (read_local_version e w) = Some d"
  by (cases "read_local_version e w")
    (auto simp: should_check_update_def split: option.splits)

lemma should_check_update_False_world:
  "\<not> fst (should_check_update e w) \<Longrightarrow> snd (should_check_update e w) = w"
  using should_check_update_False_read [of e w] read_local_version_Some_world [of e w]
  by (auto simp: should_check_update_world)

subsection \<open>What the fetch changes\<close>

lemma get_latest_release_files [simp]:
  "files (snd (get_latest_release e w)) = files w"
  by (cases "read_local_version e w", cases "release_response e")
    (auto simp: get_latest_release_def py_print_def Let_def
      dest: arg_cong [where f = "\<lambda>p. files (snd p)"] split: option.splits)

lemma get_latest_release_sent:
  "sent (snd (get_latest_release e w)) =
     sent w @ [GetRelease (request_headers e (fst (read_local_version e w)))]"
  by (cases "read_local_version e w", cases "release_response e")
    (auto simp: get_latest_release_def py_print_def Let_def
      dest: arg_cong [where f = "\<lambda>p. sent (snd p)"] split: option.splits)

lemma get_latest_release_fst:
  "fst (get_latest_release e w) =
     (case release_response e of
        ConnectionFailed \<Rightarrow> None
      | Response status body etag \<Rightarrow>
          if status = 304 \<or> (400 \<le> status \<and> status < 600) then None
          else (case body of
                  None \<Rightarrow> None
                | Some rel \<Rightarrow>
                    (case assets rel of
                       None \<Rightarrow> None
                     | Some a \<Rightarrow> if a = [] then None else Some (rel, etag))))"
  by (cases "read_local_version e w", cases "release_response e")
    (auto simp: get_latest_release_def Let_def split: option.splits)

lemma get_latest_release_Some_world:
  "fst (get_latest_release e w) = Some x \<Longrightarrow>
   snd (get_latest_release e w) =
     (snd (read_local_version e w))
       \<lparr>sent := sent w @ [GetRelease (request_headers e (fst (read_local_version e w)))]\<rparr>"
  by (cases "read_local_version e w", cases "release_response e")
    (auto simp: get_latest_release_def Let_def
      dest: arg_cong [where f = "\<lambda>p. sent (snd p)"] split: option.splits if_splits)

text \<open>The state in which \<open>update_lib\<close> calls the fetcher.\<close>

lemma checked_world:
  assumes "force \<or> fst (should_check_update e w)"
  obtains w1 where "(if force then (True, w) else should_check_update e w) = (True, w1)"
    and "files w1 = files w" and "sent w1 = sent w"
    and "fst (read_local_version e w1) = fst (read_local_version e w)"
proof (cases force)
  case True
  then show ?thesis using that [of w] by simp
next
  case False
  with assms have s: "fst (should_check_update e w)" by simp
  let ?w1 = "snd (should_check_update e w)"
  have "(if force then (True, w) else should_check_update e w) = (True, ?w1)"
    using False s by (cases "should_check_update e w") simp
  moreover have "files ?w1 = files w" "sent ?w1 = sent w"
    by (simp_all add: should_check_update_world)
  moreover from this have "fst (read_local_version e ?w1) = fst (read_local_version e w)"
    by (intro read_local_version_cong) simp
  ultimately show ?thesis using that by blast
qed

lemma update_lib_fetch_None:
  assumes "force \<or> fst (should_check_update e w)"
    and "fst (get_latest_release e w) = None"
  shows "fst (update_lib e cur force w) = Inr True"
    and "files (snd (update_lib e cur force w)) = files w"
    and "sent (snd (update_lib e cur force w)) =
           sent w @ [GetRelease (request_headers e (fst (read_local_version e w)))]"
proof -
  from assms(1) obtain w1 where w1:
    "(if force then (True, w) else should_check_update e w) = (True, w1)"
    "files w1 = files w" "sent w1 = sent w"
    "fst (read_local_version e w1) = fst (read_local_version e w)"
    by (rule checked_world)
  have n: "fst (get_latest_release e w1) = None"
    using assms(2) by (simp add: get_latest_release_fst)
  obtain w2 where w2: "get_latest_release e w1 = (None, w2)"
    using n by (cases "get_latest_release e w1") simp
  have f2: "files w2 = files w1" and s2: "sent w2 =
      sent w1 @ [GetRelease (request_headers e (fst (read_local_version e w1)))]"
    using get_latest_release_files [of e w1] get_latest_release_sent [of e w1] w2 by simp_all
  have u: "update_lib e cur force w =
             (Inr True, if force then py_print NoUpdateAvailable w2 else w2)"
    by (simp add: update_lib_def w1(1) w2)
  show "fst (update_lib e cur force w) = Inr True" by (simp add: u)
  show "files (snd (update_lib e cur force w)) = files w"
    by (simp add: u f2 w1 py_print_def)
  show "sent (snd (update_lib e cur force w)) =
           sent w @ [GetRelease (request_headers e (fst (read_local_version e w)))]"
    by (simp add: u s2 w1 py_print_def)
qed

subsection \<open>The record and the throttle\<close>

lemma read_local_version_fst:
  "fst (read_local_version e w) =
     (case files w (LOCAL_VERSION_FILE e) of
        None \<Rightarrow> None
      | Some c \<Rightarrow>
          if read_fails e \<or> length (splitlines (universal_newlines c)) < 3 then None
          else Some [(''version'', Some (splitlines (universal_newlines c) ! 0)),
                     (''last_modified'', Some (splitlines (universal_newlines c) ! 1)),
                     (''last_check'', Some (splitlines (universal_newlines c) ! 2)),
                     (''Etag'', if length (splitlines (universal_newlines c)) \<ge> 4
                                then Some (splitlines (universal_newlines c) ! 3) else None)])"
  by (auto simp: read_local_version_def Let_def split: option.splits)

lemma read_local_version_Some_keys:
  assumes "fst (read_local_version e w) = Some d"
  shows "d \<noteq> []" and "dict_has d ''last_check''" and "dict_has d ''Etag''"
    and "\<exists>s. dict_get d ''last_check'' = Some s"
  using assms
  by (auto simp: read_local_version_fst dict_has_def dict_get_def split: option.splits if_splits)

lemma datetime_sub_now:
  "datetime_sub (datetime_now_utc e) lc =
     (case utcoffset lc of
        None \<Rightarrow> Inl TypeError
      | Some off \<Rightarrow>
          Inr (((toordinal (datetime_now_utc e) - toordinal lc) * 86400
                + (day_seconds (datetime_now_utc e) - day_seconds lc)) * 1000000
               + (int (microsecond (datetime_now_utc e)) - int (microsecond lc)) + off))"
  by (auto simp: datetime_sub_def datetime_now_utc_def Let_def split: option.splits)

lemma should_check_update_fst:
  "fst (should_check_update e w) =
     (case fst (read_local_version e w) of
        None \<Rightarrow> True
      | Some d \<Rightarrow>
          (case dict_get d ''last_check'' of
             None \<Rightarrow> True
           | Some s \<Rightarrow>
               (case fromisoformat e s of
                  None \<Rightarrow> True
                | Some lc \<Rightarrow>
                    (case datetime_sub (datetime_now_utc e) lc of
                       Inl x \<Rightarrow> True
                     | Inr delta \<Rightarrow> delta > CHECK_INTERVAL))))"
proof (cases "read_local_version e w")
  case (Pair r w1)
  show ?thesis
  proof (cases r)
    case None
    with Pair show ?thesis by (simp add: should_check_update_def)
  next
    case (Some d)
    with Pair have "fst (read_local_version e w) = Some d" by simp
    from read_local_version_Some_keys [OF this] Pair Some show ?thesis
      by (auto simp: should_check_update_def split: option.splits sum.splits)
  qed
qed

subsection \<open>The path of \<open>update_lib\<close> that only refreshes the record\<close>

lemma update_lib_same_version_world:
  assumes "fst (should_check_update e w)"
    and "fst (get_latest_release e w) = Some (rel, etag)"
    and "fst (read_local_version e w) = Some info"
    and "dict_get info ''version'' = Some (tag_name rel)"
  shows "update_lib e cur False w =
           (Inr True,
            save_local_version e (tag_name rel)
              (str_of (published_at_or_now e rel))
              etag
              (w\<lparr>sent := sent w @ [GetRelease (request_headers e (Some info))]\<rparr>))"
proof -
  let ?w2 = "w\<lparr>sent := sent w @ [GetRelease (request_headers e (Some info))]\<rparr>"
  have rw: "snd (read_local_version e w) = w"
    by (rule read_local_version_Some_world [OF assms(3)])
  have s: "should_check_update e w = (True, w)"
    using assms(1) rw should_check_update_world [of e w]
    by (cases "should_check_update e w") simp
  have g: "get_latest_release e w = (Some (rel, etag), ?w2)"
    using assms(2,3) rw get_latest_release_Some_world [OF assms(2)]
    by (cases "get_latest_release e w") simp
  have "fst (read_local_version e ?w2) = Some info"
    using read_local_version_cong [of ?w2 e w] assms(3) by simp
  then have r2: "read_local_version e ?w2 = (Some info, ?w2)"
    using read_local_version_Some_world [of e ?w2 info]
    by (cases "read_local_version e ?w2") simp
  have ne: "info \<noteq> []"
    by (rule read_local_version_Some_keys(1) [OF assms(3)])
  show ?thesis
    by (simp add: update_lib_def s g r2 ne assms(4) Let_def)
qed

subsection \<open>Writing the record\<close>

lemma save_local_version_files:
  "write_fault e = NoFault \<Longrightarrow>
   files (save_local_version e v m t w) =
     (files w)(LOCAL_VERSION_FILE e \<mapsto>
        version_file_text v m (isoformat (datetime_now_utc e)) t)"
  by (simp add: save_local_version_def Let_def)

lemma read_after_save:
  assumes "write_fault e = NoFault" "\<not> read_fails e"
    and "version_file_text v m (isoformat (datetime_now_utc e)) t = version_file_text v' m' lc t'"
    and "no_linebreak v'" "no_linebreak m'" "no_linebreak lc" "lc \<noteq> []"
    and "case t' of None \<Rightarrow> True | Some s \<Rightarrow> no_linebreak s"
  shows "fst (read_local_version e (save_local_version e v m t w)) =
           Some [(''version'', Some v'), (''last_modified'', Some m'), (''last_check'', Some lc),
                 (''Etag'', case t' of None \<Rightarrow> None | Some s \<Rightarrow> if s \<noteq> [] then Some s else None)]"
proof -
  have "files (save_local_version e v m t w) (LOCAL_VERSION_FILE e) =
          Some (version_file_text v' m' lc t')"
    by (simp add: save_local_version_files [OF assms(1)] assms(3))
  from read_local_version_of_text [OF this assms(2,4,5,6,7,8)] show ?thesis by simp
qed

subsection \<open>The installer\<close>

lemma sibling_paths [simp]:
  "p @ ''.backup'' \<noteq> p" "p \<noteq> p @ ''.backup''"
  "p @ ''.tmp'' \<noteq> p" "p \<noteq> p @ ''.tmp''"
  "p @ ''.backup'' \<noteq> p @ ''.tmp''" "p @ ''.tmp'' \<noteq> p @ ''.backup''"
  by simp_all

lemma download_file_restores:
  assumes "files w dest_path = Some old"
    and "asset_response e = Streamed chunks complete"
    and "copy_fault e = NoFault"
    and "open_fails e \<or> \<not> complete \<or> move_fault e \<noteq> NoFault"
    and "restore_fault e = NoFault"
  shows "fst (download_file e url dest_path w) = Inr False"
    and "files (snd (download_file e url dest_path w)) dest_path = Some old"
    and "files (snd (download_file e url dest_path w)) (dest_path @ ''.backup'') = None"
proof -
  have "fst (download_try e url dest_path w) = False
        \<and> files (snd (download_try e url dest_path w)) (dest_path @ ''.backup'') = Some old"
    using assms(1,2,3,4)
    by (cases "move_fault e") (auto simp: download_try_def Let_def)
  then obtain w3 where t: "download_try e url dest_path w = (False, w3)"
    and b: "files w3 (dest_path @ ''.backup'') = Some old"
    by (cases "download_try e url dest_path w") simp
  show "fst (download_file e url dest_path w) = Inr False"
    and "files (snd (download_file e url dest_path w)) dest_path = Some old"
    and "files (snd (download_file e url dest_path w)) (dest_path @ ''.backup'') = None"
    using b assms(5)
    by (simp_all add: download_file_def t py_print_def Let_def)
qed

lemma download_file_restore_fails:
  assumes "files w dest_path = Some old"
    and "asset_response e = Streamed chunks True"
    and "copy_fault e = NoFault" and "\<not> open_fails e"
    and "move_fault e = Fault r" and "restore_fault e = Fault r'"
  shows "fst (download_file e url dest_path w) = Inl OSError"
    and "files (snd (download_file e url dest_path w)) dest_path = r'"
  using assms
  by (simp_all add: download_file_def download_try_def py_print_def Let_def)

subsection \<open>The asset loop\<close>

lemma download_try_sent:
  "sent (snd (download_try e url dest_path w)) = sent w @ [GetAsset url]"
  by (cases "asset_response e"; cases "copy_fault e"; cases "move_fault e";
      cases "files w dest_path")
    (simp_all add: download_try_def Let_def)

lemma download_file_sent:
  "sent (snd (download_file e url dest_path w)) = sent w @ [GetAsset url]"
proof (cases "download_try e url dest_path w")
  case (Pair ok w1)
  with download_try_sent [of e url dest_path w] have s: "sent w1 = sent w @ [GetAsset url]"
    by simp
  show ?thesis
    using s Pair
    by (cases ok; cases "restore_fault e"; cases "files w1 (dest_path @ ''.backup'')")
      (simp_all add: download_file_def py_print_def Let_def)
qed

lemma save_local_version_sent [simp]:
  "sent (save_local_version e v m t w) = sent w"
  by (cases "write_fault e") (simp_all add: save_local_version_def py_print_def Let_def)

lemma py_print_sent [simp]: "sent (py_print m w) = sent w"
  by (simp add: py_print_def)

lemma py_print_files [simp]: "files (py_print m w) = files w"
  by (simp add: py_print_def)

lemma update_lib_loop_no_match:
  "find (\<lambda>a. startswith (name a) (rsplit_dot_head cur)) as = None
   \<Longrightarrow> update_lib_loop e cur ver lm etag as w = (None, w)"
  by (induction as) (simp_all split: if_splits)

lemma update_lib_loop_first_match:
  "find (\<lambda>a. startswith (name a) (rsplit_dot_head cur)) as = Some a
   \<Longrightarrow> update_lib_loop e cur ver lm etag as w = update_lib_loop e cur ver lm etag [a] w
       \<and> startswith (name a) (rsplit_dot_head cur)"
  by (induction as) (simp_all split: if_splits)

lemma update_lib_loop_match_sent:
  assumes "startswith (name a) (rsplit_dot_head cur)"
  shows "\<exists>r. fst (update_lib_loop e cur ver lm etag [a] w) = Some r"
    and "sent (snd (update_lib_loop e cur ver lm etag [a] w)) =
           sent w @ [GetAsset (browser_download_url a)]"
proof -
  let ?d = "download_file e (browser_download_url a) (path_join (DEPENDENCIES_DIR e) cur)
              (py_print (Downloading cur (browser_download_url a)) w)"
  have s: "sent (snd ?d) = sent w @ [GetAsset (browser_download_url a)]"
    by (simp add: download_file_sent)
  obtain r w2 where d: "?d = (r, w2)" by (cases ?d)
  with s have s2: "sent w2 = sent w @ [GetAsset (browser_download_url a)]" by simp
  show "\<exists>r. fst (update_lib_loop e cur ver lm etag [a] w) = Some r"
    using assms d by (cases r) (auto simp: Let_def split: bool.splits)
  show "sent (snd (update_lib_loop e cur ver lm etag [a] w)) =
           sent w @ [GetAsset (browser_download_url a)]"
    using assms d s2 by (cases r) (auto simp: Let_def split: bool.splits)
qed

text \<open>The state in which \<open>update_lib\<close> enters the loop.\<close>

lemma update_lib_attempt:
  assumes "force \<or> fst (should_check_update e w)"
    and "fst (get_latest_release e w) = Some (rel, etag)"
    and "assets rel = Some all_assets"
    and "force \<or> (case fst (read_local_version e w) of
                     None \<Rightarrow> True
                   | Some info \<Rightarrow> dict_get info ''version'' \<noteq> Some (tag_name rel))"
  obtains w4 where
    "sent w4 = sent w @ [GetRelease (request_headers e (fst (read_local_version e w)))]"
    and "update_lib e cur force w =
           (case update_lib_loop e cur (tag_name rel)
                   (published_at_or_now e rel)
                   etag all_assets w4 of
              (Some r, w5) \<Rightarrow> (r, w5)
            | (None, w5) \<Rightarrow>
                (Inr False,
                 py_print (AvailableAssets (map name all_assets))
                   (py_print (CouldNotFindAsset cur) w5)))"
proof -
  from assms(1) obtain w1 where w1:
    "(if force then (True, w) else should_check_update e w) = (True, w1)"
    "files w1 = files w" "sent w1 = sent w"
    "fst (read_local_version e w1) = fst (read_local_version e w)"
    by (rule checked_world)
  have g1: "fst (get_latest_release e w1) = Some (rel, etag)"
    using assms(2) by (simp add: get_latest_release_fst)
  obtain w2 where w2: "get_latest_release e w1 = (Some (rel, etag), w2)"
    using g1 by (cases "get_latest_release e w1") simp
  have f2: "files w2 = files w" and s2: "sent w2 =
      sent w @ [GetRelease (request_headers e (fst (read_local_version e w)))]"
    using get_latest_release_files [of e w1] get_latest_release_sent [of e w1] w2 w1
    by simp_all
  obtain info w3 where w3: "read_local_version e w2 = (info, w3)"
    by (cases "read_local_version e w2")
  have i3: "info = fst (read_local_version e w)"
    using read_local_version_cong [of w2 e w] f2 w3 by simp
  have s3: "sent w3 = sent w2"
    using read_local_version_sent [of e w2] w3 by simp
  let ?w4 = "py_print (NewVersionFound (tag_name rel)) w3"
  have "sent ?w4 = sent w @ [GetRelease (request_headers e (fst (read_local_version e w)))]"
    by (simp add: s3 s2)
  moreover have "update_lib e cur force w =
           (case update_lib_loop e cur (tag_name rel)
                   (published_at_or_now e rel)
                   etag all_assets ?w4 of
              (Some r, w5) \<Rightarrow> (r, w5)
            | (None, w5) \<Rightarrow>
                (Inr False,
                 py_print (AvailableAssets (map name all_assets))
                   (py_print (CouldNotFindAsset cur) w5)))"
  proof -
    have a: "(case assets rel of None \<Rightarrow> [] | Some a \<Rightarrow> a) = all_assets"
      by (simp add: assms(3))
    have i: "fst (read_local_version e w) = info" by (simp add: i3)
    show ?thesis
      unfolding update_lib_def Let_def
      using assms(3,4) w1(1)
      by (cases force; cases info)
        (auto simp: i w2 w3 split: prod.splits option.splits)
  qed
  ultimately show ?thesis by (rule that)
qed

lemma download_file_succeeds:
  assumes "files w dest_path = Some old"
    and "asset_response e = Streamed chunks True"
    and "copy_fault e = NoFault" "\<not> open_fails e" "move_fault e = NoFault"
    and "\<not> remove_fails e"
  shows "download_file e url dest_path w =
           (Inr True,
            w\<lparr>sent := sent w @ [GetAsset url],
              files := (files w)(dest_path \<mapsto> concat chunks, dest_path @ ''.tmp'' := None,
                                 dest_path @ ''.backup'' := None)\<rparr>)"
  using assms
  by (simp add: download_file_def download_try_def Let_def fun_upd_twist)

subsection \<open>The example host, evaluated\<close>

lemmas example_defs = example_env_def example_world_def example_release_def
  example_fromisoformat_def
lemmas path_defs = LOCAL_VERSION_FILE_def DEPENDENCIES_DIR_def path_join_def
lemmas datetime_defs = datetime_sub_def toordinal_def days_before_year_def days_before_month_def
  is_leap_def day_seconds_def CHECK_INTERVAL_def datetime_now_utc_def
lemmas iso_defs = isoformat_def zero_pad_def format_offset_def digit_char_def digits_small
  digits_large Let_def

lemma example_version_file:
  "TLS_CLIENT_PATH e = ''/opt/tls_client''
   \<Longrightarrow> LOCAL_VERSION_FILE e = ''/opt/tls_client/dependencies/version.txt''"
  by (simp add: path_defs)

lemma example_read:
  assumes "TLS_CLIENT_PATH e = ''/opt/tls_client''" "\<not> read_fails e"
    and "no_linebreak v" "no_linebreak lc" "lc \<noteq> []"
  shows "read_local_version e (example_world v lc) =
           (Some [(''version'', Some v), (''last_modified'', Some ''2023-12-01T00:00:00Z''),
                  (''last_check'', Some lc), (''Etag'', Some ''etag-1'')],
            example_world v lc)"
proof -
  have m: "no_linebreak ''2023-12-01T00:00:00Z''" and t: "no_linebreak ''etag-1''"
    by (simp_all add: is_linebreak_def)
  have f: "files (example_world v lc) (LOCAL_VERSION_FILE e) =
             Some (version_file_text v ''2023-12-01T00:00:00Z'' lc (Some ''etag-1''))"
    by (simp add: example_version_file [OF assms(1)] example_world_def)
  show ?thesis
    using read_local_version_of_text [OF f assms(2,3) m assms(4,5)] t by simp
qed

lemma example_now: "isoformat (datetime_now_utc example_env) = ''2024-01-03T00:00:00+00:00''"
  by (simp add: iso_defs example_env_def datetime_now_utc_def)

lemma example_check_due:
  assumes "TLS_CLIENT_PATH e = ''/opt/tls_client''" "\<not> read_fails e"
    and "fromisoformat e = example_fromisoformat" "utcnow e = utcnow example_env"
  shows "fst (should_check_update e due_world)"
proof -
  have r: "read_local_version e due_world =
        (Some [(''version'', Some ''v1.1.0''), (''last_modified'', Some ''2023-12-01T00:00:00Z''),
               (''last_check'', Some ''2024-01-01T00:00:00+00:00''), (''Etag'', Some ''etag-1'')],
         due_world)"
    unfolding due_world_def
    by (rule example_read [OF assms(1,2)]) (simp_all add: is_linebreak_def)
  show ?thesis
    by (simp add: should_check_update_def r dict_has_def dict_get_def assms(3))
      (simp add: assms(4) example_env_def example_fromisoformat_def datetime_defs)
qed

lemma example_due_read:
  assumes "TLS_CLIENT_PATH e = ''/opt/tls_client''" "\<not> read_fails e"
  shows "read_local_version e due_world =
        (Some [(''version'', Some ''v1.1.0''), (''last_modified'', Some ''2023-12-01T00:00:00Z''),
               (''last_check'', Some ''2024-01-01T00:00:00+00:00''), (''Etag'', Some ''etag-1'')],
         due_world)"
  unfolding due_world_def
  by (rule example_read [OF assms(1,2)]) (simp_all add: is_linebreak_def)

lemma example_due_headers:
  assumes "TLS_CLIENT_PATH e = ''/opt/tls_client''" "\<not> read_fails e" "GITHUB_TOKEN e = None"
  shows "request_headers e (fst (read_local_version e due_world)) =
           [(''If-None-Match'', Some ''etag-1'')]"
  by (simp add: example_due_read [OF assms(1,2)] request_headers_def assms(3) dict_has_def
      dict_get_def)

lemma example_check_due_version:
  assumes "TLS_CLIENT_PATH e = ''/opt/tls_client''" "\<not> read_fails e"
    and "fromisoformat e = example_fromisoformat" "utcnow e = utcnow example_env"
    and "no_linebreak v"
  shows "fst (should_check_update e (example_world v ''2024-01-01T00:00:00+00:00''))"
proof -
  have r: "read_local_version e (example_world v ''2024-01-01T00:00:00+00:00'') =
        (Some [(''version'', Some v), (''last_modified'', Some ''2023-12-01T00:00:00Z''),
               (''last_check'', Some ''2024-01-01T00:00:00+00:00''), (''Etag'', Some ''etag-1'')],
         example_world v ''2024-01-01T00:00:00+00:00'')"
    by (rule example_read [OF assms(1,2,5)]) (simp_all add: is_linebreak_def)
  show ?thesis
    by (simp add: should_check_update_def r dict_has_def dict_get_def assms(3))
      (simp add: assms(4) example_env_def example_fromisoformat_def datetime_defs)
qed

lemma example_dest_file: "files due_world example_dest = Some ''OLD-BINARY''"
  by (simp add: due_world_def example_world_def example_dest_def)

lemma example_assets_find:
  "find (\<lambda>a. startswith (name a) (rsplit_dot_head ''tls-client-linux-amd64.so''))
     [\<lparr>name = ''tls-client-linux-arm64-1.2.0.so'',
        browser_download_url = ''https://example.org/arm64''\<rparr>,
      \<lparr>name = ''tls-client-linux-amd64-1.2.0.so'',
        browser_download_url = ''https://example.org/amd64''\<rparr>,
      \<lparr>name = ''tls-client-linux-amd64-debug.so'',
        browser_download_url = ''https://example.org/debug''\<rparr>]
   = Some \<lparr>name = ''tls-client-linux-amd64-1.2.0.so'',
            browser_download_url = ''https://example.org/amd64''\<rparr>"
  "find (\<lambda>a. startswith (name a) (rsplit_dot_head ''tls-client-windows-amd64.dll''))
     [\<lparr>name = ''tls-client-linux-arm64-1.2.0.so'',
        browser_download_url = ''https://example.org/arm64''\<rparr>,
      \<lparr>name = ''tls-client-linux-amd64-1.2.0.so'',
        browser_download_url = ''https://example.org/amd64''\<rparr>,
      \<lparr>name = ''tls-client-linux-amd64-debug.so'',
        browser_download_url = ''https://example.org/debug''\<rparr>]
   = None"
  by (simp_all add: rsplit_dot_head_def)

text \<open>A whole run on the example host: the record has an older version, so the matching
  asset is downloaded, moved into place and the record rewritten.\<close>

lemma example_update_installs:
  "fst (update_lib example_env ''tls-client-linux-amd64.so'' False due_world) = Inr True"
  "files (snd (update_lib example_env ''tls-client-linux-amd64.so'' False due_world))
     example_dest = Some ''NEW-BINARY''"
  "files (snd (update_lib example_env ''tls-client-linux-amd64.so'' False due_world))
     (LOCAL_VERSION_FILE example_env) =
     Some (version_file_text ''v1.2.0'' ''2024-01-02T09:00:00Z'' ''2024-01-03T00:00:00+00:00''
             (Some ''etag-2''))"
  "stdout (snd (update_lib example_env ''tls-client-linux-amd64.so'' False due_world)) =
     [NewVersionFound ''v1.2.0'',
      Downloading ''tls-client-linux-amd64.so'' ''https://example.org/amd64'',
      SuccessfullyDownloaded ''tls-client-linux-amd64.so'',
      UpdatedToVersion ''v1.2.0'']"
proof -
  let ?D = "[(''version'', Some ''v1.1.0''), (''last_modified'', Some ''2023-12-01T00:00:00Z''),
             (''last_check'', Some ''2024-01-01T00:00:00+00:00''), (''Etag'', Some ''etag-1'')]"
  let ?w2 = "due_world\<lparr>sent := [GetRelease [(''If-None-Match'', Some ''etag-1'')]]\<rparr>"
  have p: "TLS_CLIENT_PATH example_env = ''/opt/tls_client''" "\<not> read_fails example_env"
    "GITHUB_TOKEN example_env = None"
    by (simp_all add: example_env_def)
  have r: "read_local_version example_env due_world = (Some ?D, due_world)"
    by (rule example_due_read [OF p(1,2)])
  have "fst (should_check_update example_env due_world)"
    by (rule example_check_due) (simp_all add: example_env_def)
  then have c: "should_check_update example_env due_world = (True, due_world)"
    using should_check_update_world [of example_env due_world]
    by (cases "should_check_update example_env due_world") (simp add: r)
  have g1: "fst (get_latest_release example_env due_world)
              = Some (example_release, Some ''etag-2'')"
    by (simp add: get_latest_release_fst example_env_def example_release_def)
  have g: "get_latest_release example_env due_world
             = (Some (example_release, Some ''etag-2''), ?w2)"
  proof -
    have "sent due_world = []" by (simp add: due_world_def example_world_def)
    then show ?thesis
      using get_latest_release_Some_world [OF g1] g1 example_due_headers [OF p]
      by (cases "get_latest_release example_env due_world") (simp add: r)
  qed
  have "fst (read_local_version example_env ?w2) = Some ?D"
    using read_local_version_cong [of ?w2 example_env due_world] by (simp add: r)
  then have r2: "read_local_version example_env ?w2 = (Some ?D, ?w2)"
    using read_local_version_Some_world [of example_env ?w2 ?D]
    by (cases "read_local_version example_env ?w2") simp
  have d: "path_join (DEPENDENCIES_DIR example_env) ''tls-client-linux-amd64.so'' = example_dest"
    by (simp add: path_defs example_env_def example_dest_def)
  let ?w4 = "py_print (Downloading ''tls-client-linux-amd64.so'' ''https://example.org/amd64'')
               (py_print (NewVersionFound ''v1.2.0'') ?w2)"
  have f: "files ?w4 example_dest = Some ''OLD-BINARY''"
    by (simp add: example_dest_file)
  have dl: "download_file example_env ''https://example.org/amd64'' example_dest ?w4 =
           (Inr True,
            ?w4\<lparr>sent := sent ?w4 @ [GetAsset ''https://example.org/amd64''],
              files := (files ?w4)(example_dest \<mapsto> concat [''NEW-'', ''BINARY''],
                                   example_dest @ ''.tmp'' := None,
                                   example_dest @ ''.backup'' := None)\<rparr>)"
    by (rule download_file_succeeds [OF f]) (simp_all add: example_env_def)
  have v: "LOCAL_VERSION_FILE example_env = ''/opt/tls_client/dependencies/version.txt''"
    by (rule example_version_file [OF p(1)])
  have x: "write_fault example_env = NoFault" by (simp add: example_env_def)
  have u: "update_lib example_env ''tls-client-linux-amd64.so'' False due_world =
        (Inr True,
         py_print (UpdatedToVersion ''v1.2.0'')
           (save_local_version example_env ''v1.2.0'' ''2024-01-02T09:00:00Z'' (Some ''etag-2'')
              (py_print (SuccessfullyDownloaded ''tls-client-linux-amd64.so'')
                 (snd (download_file example_env ''https://example.org/amd64'' example_dest
                    ?w4)))))"
    apply (simp add: update_lib_def c g r2 dict_get_def Let_def)
    apply (simp add: example_release_def rsplit_dot_head_def d Let_def dl str_of_def
        published_at_or_now_def)
    done
  show "fst (update_lib example_env ''tls-client-linux-amd64.so'' False due_world) = Inr True"
    by (simp add: u)
  show "files (snd (update_lib example_env ''tls-client-linux-amd64.so'' False due_world))
     example_dest = Some ''NEW-BINARY''"
    by (simp add: u save_local_version_files [OF x] v dl) (simp add: example_dest_def)
  show "files (snd (update_lib example_env ''tls-client-linux-amd64.so'' False due_world))
     (LOCAL_VERSION_FILE example_env) =
     Some (version_file_text ''v1.2.0'' ''2024-01-02T09:00:00Z'' ''2024-01-03T00:00:00+00:00''
             (Some ''etag-2''))"
    by (simp add: u save_local_version_files [OF x] example_now)
  show "stdout (snd (update_lib example_env ''tls-client-linux-amd64.so'' False due_world)) =
     [NewVersionFound ''v1.2.0'',
      Downloading ''tls-client-linux-amd64.so'' ''https://example.org/amd64'',
      SuccessfullyDownloaded ''tls-client-linux-amd64.so'',
      UpdatedToVersion ''v1.2.0'']"
    by (simp add: u dl save_local_version_def x)
      (simp add: py_print_def due_world_def example_world_def)
qed

section \<open>Properties of the module\<close>

text \<open>
  C1, as the code has it. Let the destination exist before the call, let the request for the
  asset be answered and the backup copy be made. When the download then fails in step 2 or 3
  (the temporary file cannot be opened, the stream breaks after any number of chunks, or the
  move of the temporary file raises, leaving the destination in any state), and the move that
  restores the backup does not itself raise, \<open>download_file\<close> returns \<open>False\<close> and the
  destination has its content from before the call.
\<close>

theorem download_file_failure_restores:
  assumes "files w dest_path = Some old"
    and "asset_response e = Streamed chunks complete"
    and "copy_fault e = NoFault"
    and "open_fails e \<or> \<not> complete \<or> move_fault e \<noteq> NoFault"
    and "restore_fault e = NoFault"
  shows "fst (download_file e url dest_path w) = Inr False
         \<and> files (snd (download_file e url dest_path w)) dest_path = Some old"
  using download_file_restores(1,2) [OF assms] by simp

theorem download_file_failure_restores_witness:
  "files due_world example_dest = Some ''OLD-BINARY''
   \<and> asset_response broken_stream_env = Streamed [''NEW-''] False
   \<and> copy_fault broken_stream_env = NoFault \<and> restore_fault broken_stream_env = NoFault
   \<and> fst (download_file broken_stream_env ''https://example.org/amd64'' example_dest due_world)
       = Inr False
   \<and> files (snd (download_file broken_stream_env ''https://example.org/amd64'' example_dest
                   due_world)) example_dest = Some ''OLD-BINARY''
   \<and> asset_response failed_move_env = Streamed [''NEW-'', ''BINARY''] True
   \<and> move_fault failed_move_env = Fault (Some ''NEW-'')
   \<and> copy_fault failed_move_env = NoFault \<and> restore_fault failed_move_env = NoFault
   \<and> fst (download_file failed_move_env ''https://example.org/amd64'' example_dest due_world)
       = Inr False
   \<and> files (snd (download_file failed_move_env ''https://example.org/amd64'' example_dest
                   due_world)) example_dest = Some ''OLD-BINARY''"
proof -
  have a: "asset_response broken_stream_env = Streamed [''NEW-''] False"
    "copy_fault broken_stream_env = NoFault" "restore_fault broken_stream_env = NoFault"
    by (simp_all add: broken_stream_env_def example_env_def)
  have a4: "open_fails broken_stream_env \<or> \<not> False \<or> move_fault broken_stream_env \<noteq> NoFault"
    by simp
  have b: "asset_response failed_move_env = Streamed [''NEW-'', ''BINARY''] True"
    "copy_fault failed_move_env = NoFault" "restore_fault failed_move_env = NoFault"
    "move_fault failed_move_env = Fault (Some ''NEW-'')"
    by (simp_all add: failed_move_env_def example_env_def)
  have b4: "open_fails failed_move_env \<or> \<not> True \<or> move_fault failed_move_env \<noteq> NoFault"
    by (simp add: b)
  show ?thesis
    using download_file_failure_restores [OF example_dest_file a(1,2) a4 a(3),
        of "''https://example.org/amd64''"]
      download_file_failure_restores [OF example_dest_file b(1,2) b4 b(3),
        of "''https://example.org/amd64''"]
    by (simp add: example_dest_file a b)
qed

text \<open>
  C1 as stated fails when the restoring move raises: it stands in the handler, outside any
  \<^verbatim>\<open>try\<close>, so the exception leaves \<open>download_file\<close> and no failure value is returned. On
  the host with a locked destination both moves raise and the call raises \<^verbatim>\<open>OSError\<close>; on
  the host with a failing device the call raises as well and the destination is left
  truncated.
\<close>

theorem download_file_restore_can_fail:
  "files due_world example_dest = Some ''OLD-BINARY''
   \<and> asset_response locked_dest_env = Streamed [''NEW-'', ''BINARY''] True
   \<and> move_fault locked_dest_env = Fault (Some ''OLD-BINARY'')
   \<and> fst (download_file locked_dest_env ''https://example.org/amd64'' example_dest due_world)
       = Inl OSError
   \<and> asset_response failing_disk_env = Streamed [''NEW-'', ''BINARY''] True
   \<and> move_fault failing_disk_env = Fault (Some ''NEW-'')
   \<and> fst (download_file failing_disk_env ''https://example.org/amd64'' example_dest due_world)
       = Inl OSError
   \<and> files (snd (download_file failing_disk_env ''https://example.org/amd64'' example_dest
                   due_world)) example_dest = Some []"
proof -
  have a: "asset_response locked_dest_env = Streamed [''NEW-'', ''BINARY''] True"
    "copy_fault locked_dest_env = NoFault" "\<not> open_fails locked_dest_env"
    "move_fault locked_dest_env = Fault (Some ''OLD-BINARY'')"
    "restore_fault locked_dest_env = Fault (Some ''OLD-BINARY'')"
    by (simp_all add: locked_dest_env_def example_env_def)
  have b: "asset_response failing_disk_env = Streamed [''NEW-'', ''BINARY''] True"
    "copy_fault failing_disk_env = NoFault" "\<not> open_fails failing_disk_env"
    "move_fault failing_disk_env = Fault (Some ''NEW-'')"
    "restore_fault failing_disk_env = Fault (Some [])"
    by (simp_all add: failing_disk_env_def example_env_def)
  show ?thesis
    using download_file_restore_fails [OF example_dest_file a,
        of "''https://example.org/amd64''"]
      download_file_restore_fails [OF example_dest_file b,
        of "''https://example.org/amd64''"]
    by (simp add: example_dest_file a b)
qed




text \<open>
  C3, as the code has it. When the response lists no asset (the \<^verbatim>\<open>assets\<close> key is absent or
  its list is empty), \<open>get_latest_release\<close> returns \<^verbatim>\<open>None\<close>, whatever the status; when the
  check is made, \<open>update_lib\<close> then returns \<open>True\<close>, leaves every file as it was (no field of
  the record changes) and makes the one GET of the release endpoint: nothing is downloaded.
\<close>

theorem update_lib_no_assets:
  assumes "release_response e = Response status (Some rel) etag"
    and "assets rel = None \<or> assets rel = Some []"
    and "force \<or> fst (should_check_update e w)"
  shows "fst (get_latest_release e w) = None
         \<and> fst (update_lib e cur force w) = Inr True
         \<and> files (snd (update_lib e cur force w)) = files w
         \<and> sent (snd (update_lib e cur force w)) =
             sent w @ [GetRelease (request_headers e (fst (read_local_version e w)))]"
proof -
  have "fst (get_latest_release e w) = None"
    using assms(1,2) by (auto simp: get_latest_release_fst)
  with assms(3) show ?thesis by (simp add: update_lib_fetch_None)
qed

theorem update_lib_no_assets_witness:
  "release_response no_assets_env
     = Response 200 (Some (example_release\<lparr>assets := Some []\<rparr>)) (Some ''etag-2'')
   \<and> assets (example_release\<lparr>assets := Some []\<rparr>) = Some []
   \<and> fst (should_check_update no_assets_env due_world)
   \<and> fst (get_latest_release no_assets_env due_world) = None
   \<and> fst (update_lib no_assets_env ''tls-client-linux-amd64.so'' False due_world) = Inr True
   \<and> files (snd (update_lib no_assets_env ''tls-client-linux-amd64.so'' False due_world))
       = files due_world
   \<and> sent (snd (update_lib no_assets_env ''tls-client-linux-amd64.so'' False due_world))
       = [GetRelease [(''If-None-Match'', Some ''etag-1'')]]"
proof -
  have r: "release_response no_assets_env
     = Response 200 (Some (example_release\<lparr>assets := Some []\<rparr>)) (Some ''etag-2'')"
    by (simp add: no_assets_env_def)
  have a: "assets (example_release\<lparr>assets := Some []\<rparr>) = None
           \<or> assets (example_release\<lparr>assets := Some []\<rparr>) = Some []"
    by simp
  have d: "fst (should_check_update no_assets_env due_world)"
    by (rule example_check_due) (simp_all add: no_assets_env_def example_env_def)
  have h: "request_headers no_assets_env (fst (read_local_version no_assets_env due_world))
             = [(''If-None-Match'', Some ''etag-1'')]"
    by (rule example_due_headers) (simp_all add: no_assets_env_def example_env_def)
  have s: "sent due_world = []"
    by (simp add: due_world_def example_world_def)
  show ?thesis
    using update_lib_no_assets [OF r a disjI2 [OF d], of "''tls-client-linux-amd64.so''"] r d
    by (simp add: h s)
qed

text \<open>
  C3 as stated fails in its first part: the result for a release without assets is
  \<^verbatim>\<open>None\<close>, and so is the result for a 304; the caller cannot tell them apart.
\<close>

theorem zero_assets_same_result_as_not_modified:
  "fst (get_latest_release no_assets_env due_world) = None
   \<and> fst (get_latest_release not_modified_env due_world) = None
   \<and> fst (get_latest_release no_assets_env due_world)
       = fst (get_latest_release not_modified_env due_world)"
  by (simp add: get_latest_release_fst no_assets_env_def not_modified_env_def)

text \<open>
  C4. For every pair of platform names, \<open>get_dependency_filename\<close> returns the file name of
  the mapping table, decided on the lower-cased names: the three Windows rows, the three Linux
  rows and the two Darwin rows; for every other system it raises \<^verbatim>\<open>ValueError\<close> (the
  unsupported-platform error). The result is a function of the two names alone.
\<close>

theorem get_dependency_filename_table:
  "(lower sys = ''windows'' \<and> lower mach \<in> {''amd64'', ''x86_64''}
      \<longrightarrow> get_dependency_filename sys mach = Inr ''tls-client-windows-amd64.dll'')
   \<and> (lower sys = ''windows'' \<and> lower mach \<in> {''x86'', ''i386''}
      \<longrightarrow> get_dependency_filename sys mach = Inr ''tls-client-windows-386.dll'')
   \<and> (lower sys = ''windows'' \<and> lower mach \<notin> {''amd64'', ''x86_64'', ''x86'', ''i386''}
      \<longrightarrow> get_dependency_filename sys mach = Inr ''tls-client-windows-amd64.dll'')
   \<and> (lower sys = ''linux'' \<and> lower mach \<in> {''amd64'', ''x86_64''}
      \<longrightarrow> get_dependency_filename sys mach = Inr ''tls-client-linux-amd64.so'')
   \<and> (lower sys = ''linux'' \<and> lower mach \<in> {''arm64'', ''aarch64''}
      \<longrightarrow> get_dependency_filename sys mach = Inr ''tls-client-linux-arm64.so'')
   \<and> (lower sys = ''linux'' \<and> lower mach \<notin> {''amd64'', ''x86_64'', ''arm64'', ''aarch64''}
      \<longrightarrow> get_dependency_filename sys mach = Inr ''tls-client-linux-amd64.so'')
   \<and> (lower sys = ''darwin'' \<and> lower mach \<in> {''arm64'', ''aarch64''}
      \<longrightarrow> get_dependency_filename sys mach = Inr ''tls-client-darwin-arm64.dylib'')
   \<and> (lower sys = ''darwin'' \<and> lower mach \<notin> {''arm64'', ''aarch64''}
      \<longrightarrow> get_dependency_filename sys mach = Inr ''tls-client-darwin-amd64.dylib'')
   \<and> (lower sys \<notin> {''windows'', ''linux'', ''darwin''}
      \<longrightarrow> get_dependency_filename sys mach
            = Inl (ValueError (''Unsupported platform: '' @ lower sys)))"
  by (simp add: get_dependency_filename_def Let_def)

theorem get_dependency_filename_table_witness:
  "get_dependency_filename ''Windows'' ''AMD64'' = Inr ''tls-client-windows-amd64.dll''
   \<and> get_dependency_filename ''Windows'' ''x86'' = Inr ''tls-client-windows-386.dll''
   \<and> get_dependency_filename ''Windows'' ''ARM64'' = Inr ''tls-client-windows-amd64.dll''
   \<and> get_dependency_filename ''Linux'' ''x86_64'' = Inr ''tls-client-linux-amd64.so''
   \<and> get_dependency_filename ''Linux'' ''aarch64'' = Inr ''tls-client-linux-arm64.so''
   \<and> get_dependency_filename ''Linux'' ''riscv64'' = Inr ''tls-client-linux-amd64.so''
   \<and> get_dependency_filename ''Darwin'' ''arm64'' = Inr ''tls-client-darwin-arm64.dylib''
   \<and> get_dependency_filename ''Darwin'' ''x86_64'' = Inr ''tls-client-darwin-amd64.dylib''
   \<and> get_dependency_filename ''FreeBSD'' ''amd64''
       = Inl (ValueError ''Unsupported platform: freebsd'')"
proof -
  have s: "lower ''Windows'' = ''windows''" "lower ''Linux'' = ''linux''"
    "lower ''Darwin'' = ''darwin''" "lower ''FreeBSD'' = ''freebsd''"
    by code_simp+
  have m: "lower ''AMD64'' = ''amd64''" "lower ''x86'' = ''x86''" "lower ''ARM64'' = ''arm64''"
    "lower ''x86_64'' = ''x86_64''" "lower ''aarch64'' = ''aarch64''"
    "lower ''riscv64'' = ''riscv64''" "lower ''arm64'' = ''arm64''" "lower ''amd64'' = ''amd64''"
    by code_simp+
  show ?thesis
    using get_dependency_filename_table [of "''Windows''" "''AMD64''"]
      get_dependency_filename_table [of "''Windows''" "''x86''"]
      get_dependency_filename_table [of "''Windows''" "''ARM64''"]
      get_dependency_filename_table [of "''Linux''" "''x86_64''"]
      get_dependency_filename_table [of "''Linux''" "''aarch64''"]
      get_dependency_filename_table [of "''Linux''" "''riscv64''"]
      get_dependency_filename_table [of "''Darwin''" "''arm64''"]
      get_dependency_filename_table [of "''Darwin''" "''x86_64''"]
      get_dependency_filename_table [of "''FreeBSD''" "''amd64''"]
    by (simp add: s m)
qed

text \<open>
  C5, as the code has it. Let the version and the last-modified string contain no line
  boundary, and let the token be \<^verbatim>\<open>None\<close> or a non-empty string without line boundary. When
  the write and the read both work, \<open>save_local_version\<close> followed by \<open>read_local_version\<close>
  gives a record with exactly this version, last-modified string and token, and with
  \<^verbatim>\<open>last_check\<close> the ISO rendering of the UTC clock at the write.
\<close>

theorem save_then_read_roundtrip:
  assumes "no_linebreak v" "no_linebreak m"
    and "case t of None \<Rightarrow> True | Some s \<Rightarrow> s \<noteq> [] \<and> no_linebreak s"
    and "write_fault e = NoFault" "\<not> read_fails e"
  shows "fst (read_local_version e (save_local_version e v m t w)) =
           Some [(''version'', Some v), (''last_modified'', Some m),
                 (''last_check'', Some (isoformat (datetime_now_utc e))), (''Etag'', t)]"
proof -
  have t: "case t of None \<Rightarrow> True | Some s \<Rightarrow> no_linebreak s"
    using assms(3) by (simp split: option.splits)
  have "(case t of None \<Rightarrow> None | Some s \<Rightarrow> if s \<noteq> [] then Some s else None) = t"
    using assms(3) by (simp split: option.splits)
  with read_after_save [OF assms(4,5) refl assms(1,2) isoformat_no_linebreak
      isoformat_nonempty t, of w]
  show ?thesis by simp
qed

theorem save_then_read_roundtrip_witness:
  "no_linebreak ''v1.2.0'' \<and> no_linebreak ''2024-01-02T09:00:00Z''
   \<and> ''etag-2'' \<noteq> [] \<and> no_linebreak ''etag-2''
   \<and> write_fault example_env = NoFault \<and> \<not> read_fails example_env
   \<and> fst (read_local_version example_env
            (save_local_version example_env ''v1.2.0'' ''2024-01-02T09:00:00Z'' (Some ''etag-2'')
               due_world))
       = Some [(''version'', Some ''v1.2.0''), (''last_modified'', Some ''2024-01-02T09:00:00Z''),
               (''last_check'', Some ''2024-01-03T00:00:00+00:00''), (''Etag'', Some ''etag-2'')]"
proof -
  have a: "no_linebreak ''v1.2.0''" "no_linebreak ''2024-01-02T09:00:00Z''"
    by (simp_all add: is_linebreak_def)
  have b: "case Some ''etag-2'' of None \<Rightarrow> True | Some s \<Rightarrow> s \<noteq> [] \<and> no_linebreak s"
    by (simp add: is_linebreak_def)
  have c: "write_fault example_env = NoFault" "\<not> read_fails example_env"
    by (simp_all add: example_env_def)
  show ?thesis
    using save_then_read_roundtrip [OF a b c, of due_world] a b c
    by (simp add: example_now)
qed

text \<open>
  C5 as stated fails for two kinds of argument. A version with a line break shifts the lines:
  written with version \<^verbatim>\<open>"v1\nbeta"\<close> and no token, the record reads back with version
  \<^verbatim>\<open>v1\<close>, last\_modified \<^verbatim>\<open>beta\<close>, the last-modified string as \<^verbatim>\<open>last_check\<close> and the
  timestamp as token. An empty token is not written (\<^verbatim>\<open>if etag:\<close>), so it reads back as
  \<^verbatim>\<open>None\<close>.
\<close>

theorem save_then_read_loses_fields:
  "fst (read_local_version example_env
         (save_local_version example_env (''v1'' @ [LF] @ ''beta'') ''2024-01-02T09:00:00Z'' None
            due_world))
     = Some [(''version'', Some ''v1''), (''last_modified'', Some ''beta''),
             (''last_check'', Some ''2024-01-02T09:00:00Z''),
             (''Etag'', Some ''2024-01-03T00:00:00+00:00'')]
   \<and> fst (read_local_version example_env
            (save_local_version example_env ''v1.2.0'' ''2024-01-02T09:00:00Z'' (Some [])
               due_world))
       = Some [(''version'', Some ''v1.2.0''), (''last_modified'', Some ''2024-01-02T09:00:00Z''),
               (''last_check'', Some ''2024-01-03T00:00:00+00:00''), (''Etag'', None)]"
proof -
  have c: "write_fault example_env = NoFault" "\<not> read_fails example_env"
    by (simp_all add: example_env_def)
  have e1: "version_file_text (''v1'' @ [LF] @ ''beta'') ''2024-01-02T09:00:00Z''
              (isoformat (datetime_now_utc example_env)) None
            = version_file_text ''v1'' ''beta'' ''2024-01-02T09:00:00Z''
                (Some ''2024-01-03T00:00:00+00:00'')"
    by (simp add: version_file_text_def example_now)
  have e2: "version_file_text ''v1.2.0'' ''2024-01-02T09:00:00Z''
              (isoformat (datetime_now_utc example_env)) (Some [])
            = version_file_text ''v1.2.0'' ''2024-01-02T09:00:00Z''
                ''2024-01-03T00:00:00+00:00'' None"
    by (simp add: version_file_text_def example_now)
  have "fst (read_local_version example_env
         (save_local_version example_env (''v1'' @ [LF] @ ''beta'') ''2024-01-02T09:00:00Z'' None
            due_world))
     = Some [(''version'', Some ''v1''), (''last_modified'', Some ''beta''),
             (''last_check'', Some ''2024-01-02T09:00:00Z''),
             (''Etag'', Some ''2024-01-03T00:00:00+00:00'')]"
    by (subst read_after_save [OF c e1]) (simp_all add: is_linebreak_def)
  moreover have "fst (read_local_version example_env
            (save_local_version example_env ''v1.2.0'' ''2024-01-02T09:00:00Z'' (Some [])
               due_world))
       = Some [(''version'', Some ''v1.2.0''), (''last_modified'', Some ''2024-01-02T09:00:00Z''),
               (''last_check'', Some ''2024-01-03T00:00:00+00:00''), (''Etag'', None)]"
    by (subst read_after_save [OF c e2]) (simp_all add: is_linebreak_def)
  ultimately show ?thesis by simp
qed

text \<open>
  C6, as the code has it. \<open>read_local_version\<close> returns no record exactly when the record
  file is absent, cannot be read, or has fewer than three lines. \<open>should_check_update\<close> is
  true exactly when there is no record, or \<^verbatim>\<open>fromisoformat\<close> refuses the \<^verbatim>\<open>last_check\<close>
  line, or the parsed timestamp is naive (it has no UTC offset, so the subtraction raises
  \<^verbatim>\<open>TypeError\<close>, which the handler turns into \<open>True\<close>), or the clock minus the timestamp
  exceeds \<open>CHECK_INTERVAL\<close>; otherwise it is false.
\<close>

theorem should_check_update_iff:
  "(fst (read_local_version e w) = None \<longleftrightarrow>
      (case files w (LOCAL_VERSION_FILE e) of
         None \<Rightarrow> True
       | Some c \<Rightarrow> read_fails e \<or> length (splitlines (universal_newlines c)) < 3))
   \<and> (fst (should_check_update e w) \<longleftrightarrow>
        fst (read_local_version e w) = None
        \<or> (\<exists>d s. fst (read_local_version e w) = Some d \<and> dict_get d ''last_check'' = Some s
             \<and> (case fromisoformat e s of
                  None \<Rightarrow> True
                | Some lc \<Rightarrow>
                    utcoffset lc = None
                    \<or> (\<exists>delta. datetime_sub (datetime_now_utc e) lc = Inr delta
                                \<and> delta > CHECK_INTERVAL))))"
proof (intro conjI)
  show "fst (read_local_version e w) = None \<longleftrightarrow>
      (case files w (LOCAL_VERSION_FILE e) of
         None \<Rightarrow> True
       | Some c \<Rightarrow> read_fails e \<or> length (splitlines (universal_newlines c)) < 3)"
    by (simp add: read_local_version_fst split: option.splits)
next
  show "fst (should_check_update e w) \<longleftrightarrow>
        fst (read_local_version e w) = None
        \<or> (\<exists>d s. fst (read_local_version e w) = Some d \<and> dict_get d ''last_check'' = Some s
             \<and> (case fromisoformat e s of
                  None \<Rightarrow> True
                | Some lc \<Rightarrow>
                    utcoffset lc = None
                    \<or> (\<exists>delta. datetime_sub (datetime_now_utc e) lc = Inr delta
                                \<and> delta > CHECK_INTERVAL)))"
  proof (cases "fst (read_local_version e w)")
    case None
    then show ?thesis by (simp add: should_check_update_fst)
  next
    case (Some d)
    from read_local_version_Some_keys(4) [OF Some] obtain s
      where s: "dict_get d ''last_check'' = Some s" by blast
    show ?thesis
      by (simp add: should_check_update_fst Some s datetime_sub_now
          split: option.splits)
  qed
qed

theorem should_check_update_iff_witness:
  "fst (read_local_version example_env due_world) \<noteq> None
   \<and> fromisoformat example_env ''2024-01-01T00:00:00+00:00'' \<noteq> None
   \<and> fst (should_check_update example_env due_world)
   \<and> fst (read_local_version example_env (due_world\<lparr>files := Map.empty\<rparr>)) = None
   \<and> fst (should_check_update example_env (due_world\<lparr>files := Map.empty\<rparr>))"
proof -
  have r: "read_local_version example_env due_world =
        (Some [(''version'', Some ''v1.1.0''), (''last_modified'', Some ''2023-12-01T00:00:00Z''),
               (''last_check'', Some ''2024-01-01T00:00:00+00:00''), (''Etag'', Some ''etag-1'')],
         due_world)"
    by (rule example_due_read) (simp_all add: example_env_def)
  have p: "fromisoformat example_env ''2024-01-01T00:00:00+00:00'' =
             Some \<lparr>year = 2024, month = 1, day = 1, hour = 0, minute = 0, second = 0,
                   microsecond = 0, utcoffset = Some 0\<rparr>"
    by (simp add: example_env_def example_fromisoformat_def)
  have d: "datetime_sub (datetime_now_utc example_env)
             \<lparr>year = 2024, month = 1, day = 1, hour = 0, minute = 0, second = 0,
              microsecond = 0, utcoffset = Some 0\<rparr> = Inr 172800000000"
    by (simp add: example_env_def datetime_defs)
  have a: "fst (should_check_update example_env due_world)"
    using should_check_update_iff [of example_env due_world] d
    by (auto simp: r p dict_get_def CHECK_INTERVAL_def)
  have b: "fst (read_local_version example_env (due_world\<lparr>files := Map.empty\<rparr>)) = None"
    using should_check_update_iff [of example_env "due_world\<lparr>files := Map.empty\<rparr>"]
    by simp
  have c: "fst (should_check_update example_env (due_world\<lparr>files := Map.empty\<rparr>))"
    using should_check_update_iff [of example_env "due_world\<lparr>files := Map.empty\<rparr>"] b
    by simp
  show ?thesis using a b c by (simp add: r p)
qed

text \<open>
  C6 as stated fails on a naive timestamp. The record exists, its \<^verbatim>\<open>last_check\<close> line
  \<^verbatim>\<open>2024-01-02T12:00:00\<close> parses, and it lies 12 hours before the clock (read as UTC), which
  does not exceed 24 hours; yet \<open>should_check_update\<close> is true.
\<close>

theorem should_check_update_naive_timestamp:
  "fst (should_check_update example_env (example_world ''v1.1.0'' ''2024-01-02T12:00:00''))
   \<and> fst (read_local_version example_env (example_world ''v1.1.0'' ''2024-01-02T12:00:00''))
       = Some [(''version'', Some ''v1.1.0''), (''last_modified'', Some ''2023-12-01T00:00:00Z''),
               (''last_check'', Some ''2024-01-02T12:00:00''), (''Etag'', Some ''etag-1'')]
   \<and> fromisoformat example_env ''2024-01-02T12:00:00''
       = Some \<lparr>year = 2024, month = 1, day = 2, hour = 12, minute = 0, second = 0,
               microsecond = 0, utcoffset = None\<rparr>
   \<and> datetime_sub (datetime_now_utc example_env)
        \<lparr>year = 2024, month = 1, day = 2, hour = 12, minute = 0, second = 0,
         microsecond = 0, utcoffset = Some 0\<rparr> = Inr 43200000000
   \<and> \<not> 43200000000 > CHECK_INTERVAL"
proof -
  have r: "read_local_version example_env (example_world ''v1.1.0'' ''2024-01-02T12:00:00'') =
        (Some [(''version'', Some ''v1.1.0''), (''last_modified'', Some ''2023-12-01T00:00:00Z''),
               (''last_check'', Some ''2024-01-02T12:00:00''), (''Etag'', Some ''etag-1'')],
         example_world ''v1.1.0'' ''2024-01-02T12:00:00'')"
    by (rule example_read) (simp_all add: example_env_def is_linebreak_def)
  have p: "fromisoformat example_env ''2024-01-02T12:00:00''
       = Some \<lparr>year = 2024, month = 1, day = 2, hour = 12, minute = 0, second = 0,
               microsecond = 0, utcoffset = None\<rparr>"
    by (simp add: example_env_def example_fromisoformat_def)
  have d: "datetime_sub (datetime_now_utc example_env)
        \<lparr>year = 2024, month = 1, day = 2, hour = 12, minute = 0, second = 0,
         microsecond = 0, utcoffset = Some 0\<rparr> = Inr 43200000000"
    by (simp add: example_env_def datetime_defs)
  have s: "fst (should_check_update example_env (example_world ''v1.1.0'' ''2024-01-02T12:00:00''))"
    by (simp add: should_check_update_fst r p dict_get_def datetime_sub_now)
  show ?thesis using r p d s by (simp add: CHECK_INTERVAL_def)
qed

text \<open>
  C7. When \<open>update_lib\<close> is called with \<open>force = False\<close> and \<open>should_check_update\<close> is
  false, it returns \<open>True\<close> and the state is what it was: no network call is added to
  \<open>sent\<close>, no file changes (the record and the binary among them), nothing is printed.
\<close>

theorem update_lib_throttled:
  "\<not> fst (should_check_update e w) \<Longrightarrow> update_lib e cur False w = (Inr True, w)"
  using should_check_update_False_world [of e w]
  by (cases "should_check_update e w") (simp add: update_lib_def)

theorem update_lib_throttled_witness:
  "\<not> fst (should_check_update example_env (example_world ''v1.1.0'' ''2024-01-02T12:00:00+00:00''))
   \<and> update_lib example_env ''tls-client-linux-amd64.so'' False
        (example_world ''v1.1.0'' ''2024-01-02T12:00:00+00:00'')
      = (Inr True, example_world ''v1.1.0'' ''2024-01-02T12:00:00+00:00'')"
proof -
  have r: "read_local_version example_env (example_world ''v1.1.0'' ''2024-01-02T12:00:00+00:00'') =
        (Some [(''version'', Some ''v1.1.0''), (''last_modified'', Some ''2023-12-01T00:00:00Z''),
               (''last_check'', Some ''2024-01-02T12:00:00+00:00''), (''Etag'', Some ''etag-1'')],
         example_world ''v1.1.0'' ''2024-01-02T12:00:00+00:00'')"
    by (rule example_read) (simp_all add: example_env_def is_linebreak_def)
  have s: "\<not> fst (should_check_update example_env
                    (example_world ''v1.1.0'' ''2024-01-02T12:00:00+00:00''))"
    by (simp add: should_check_update_def r dict_has_def dict_get_def)
      (simp add: example_env_def example_fromisoformat_def datetime_defs)
  show ?thesis
    using s update_lib_throttled [OF s, of "''tls-client-linux-amd64.so''"] by simp
qed

text \<open>
  C8. When \<open>update_lib\<close> is called with \<open>force = False\<close>, the check is due, the fetcher
  returns a release and its tag equals the version of the stored record, \<open>update_lib\<close>
  returns \<open>True\<close> and its only network call is the GET of the release endpoint: nothing is
  downloaded. Whether the record is refreshed depends on the write of the record file, whose
  failure \<open>save_local_version\<close> prints and swallows:
  \<^item> when the write works, the record file holds the same version, as \<^verbatim>\<open>last_modified\<close> the
    release's \<^verbatim>\<open>published_at\<close> (the text \<^verbatim>\<open>None\<close> when it is \<^verbatim>\<open>null\<close>, the clock when
    the key is absent), as \<^verbatim>\<open>last_check\<close> the clock, and the token of the response (no
    token line when the response has none or an empty one); no other file changes;
  \<^item> when the write raises, the record file is left as the failed write leaves it, the error
    is printed, and the result is \<open>True\<close> all the same.
\<close>

theorem update_lib_same_version:
  assumes "fst (should_check_update e w)"
    and "fst (get_latest_release e w) = Some (rel, etag)"
    and "fst (read_local_version e w) = Some info"
    and "dict_get info ''version'' = Some (tag_name rel)"
  shows "fst (update_lib e cur False w) = Inr True
         \<and> sent (snd (update_lib e cur False w)) =
             sent w @ [GetRelease (request_headers e (Some info))]
         \<and> (write_fault e = NoFault \<longrightarrow>
              files (snd (update_lib e cur False w)) =
                (files w)(LOCAL_VERSION_FILE e \<mapsto>
                   version_file_text (tag_name rel) (str_of (published_at_or_now e rel))
                     (isoformat (datetime_now_utc e)) etag)
              \<and> stdout (snd (update_lib e cur False w)) = stdout w)
         \<and> (\<forall>r. write_fault e = Fault r \<longrightarrow>
              files (snd (update_lib e cur False w)) = (files w)(LOCAL_VERSION_FILE e := r)
              \<and> stdout (snd (update_lib e cur False w)) = stdout w @ [ErrorSavingVersionFile])"
  unfolding update_lib_same_version_world [OF assms]
  by (cases "write_fault e") (simp_all add: save_local_version_def py_print_def Let_def)

text \<open>On the example host the record of \<open>same_version_world\<close> is rewritten with the clock and
  the token \<^verbatim>\<open>etag-2\<close> and reads back so; when the release has
  \<^verbatim>\<open>"published_at": null\<close>, the second line of the record is the text \<^verbatim>\<open>None\<close>.\<close>

theorem update_lib_same_version_witness:
  "fst (should_check_update example_env same_version_world)
   \<and> fst (get_latest_release example_env same_version_world)
       = Some (example_release, Some ''etag-2'')
   \<and> fst (read_local_version example_env same_version_world)
       = Some [(''version'', Some ''v1.2.0''), (''last_modified'', Some ''2023-12-01T00:00:00Z''),
               (''last_check'', Some ''2024-01-01T00:00:00+00:00''), (''Etag'', Some ''etag-1'')]
   \<and> tag_name example_release = ''v1.2.0''
   \<and> write_fault example_env = NoFault
   \<and> fst (update_lib example_env ''tls-client-linux-amd64.so'' False same_version_world)
       = Inr True
   \<and> sent (snd (update_lib example_env ''tls-client-linux-amd64.so'' False same_version_world))
       = [GetRelease [(''If-None-Match'', Some ''etag-1'')]]
   \<and> files (snd (update_lib example_env ''tls-client-linux-amd64.so'' False same_version_world))
       = (files same_version_world)
           (''/opt/tls_client/dependencies/version.txt'' \<mapsto>
              version_file_text ''v1.2.0'' ''2024-01-02T09:00:00Z''
                ''2024-01-03T00:00:00+00:00'' (Some ''etag-2''))
   \<and> fst (read_local_version example_env
            (snd (update_lib example_env ''tls-client-linux-amd64.so'' False same_version_world)))
       = Some [(''version'', Some ''v1.2.0''), (''last_modified'', Some ''2024-01-02T09:00:00Z''),
               (''last_check'', Some ''2024-01-03T00:00:00+00:00''), (''Etag'', Some ''etag-2'')]
   \<and> fst (get_latest_release null_published_env same_version_world)
       = Some (example_release\<lparr>published_at := Present None\<rparr>, Some ''etag-2'')
   \<and> files (snd (update_lib null_published_env ''tls-client-linux-amd64.so'' False
                   same_version_world))
       = (files same_version_world)
           (''/opt/tls_client/dependencies/version.txt'' \<mapsto>
              version_file_text ''v1.2.0'' ''None'' ''2024-01-03T00:00:00+00:00''
                (Some ''etag-2''))"
proof -
  let ?D = "[(''version'', Some ''v1.2.0''), (''last_modified'', Some ''2023-12-01T00:00:00Z''),
             (''last_check'', Some ''2024-01-01T00:00:00+00:00''), (''Etag'', Some ''etag-1'')]"
  let ?cur = "''tls-client-linux-amd64.so''"
  let ?null = "example_release\<lparr>published_at := Present None\<rparr>"
  have c: "fst (should_check_update example_env same_version_world)"
    unfolding same_version_world_def
    by (rule example_check_due_version) (simp_all add: example_env_def is_linebreak_def)
  have g: "fst (get_latest_release example_env same_version_world)
             = Some (example_release, Some ''etag-2'')"
    by (simp add: get_latest_release_fst example_env_def example_release_def)
  have r: "fst (read_local_version example_env same_version_world) = Some ?D"
    unfolding same_version_world_def
    by (subst example_read) (simp_all add: example_env_def is_linebreak_def)
  have v: "dict_get ?D ''version'' = Some (tag_name example_release)"
    by (simp add: dict_get_def example_release_def)
  have h: "request_headers example_env (Some ?D) = [(''If-None-Match'', Some ''etag-1'')]"
    by (simp add: request_headers_def dict_has_def dict_get_def example_env_def)
  have wf: "write_fault example_env = NoFault" by (simp add: example_env_def)
  have p: "LOCAL_VERSION_FILE example_env = ''/opt/tls_client/dependencies/version.txt''"
    by (rule example_version_file) (simp add: example_env_def)
  have s: "sent same_version_world = []"
    by (simp add: same_version_world_def example_world_def)
  have e: "tag_name example_release = ''v1.2.0''"
    "str_of (published_at_or_now example_env example_release) = ''2024-01-02T09:00:00Z''"
    by (simp_all add: example_release_def published_at_or_now_def str_of_def)
  note t = update_lib_same_version [OF c g r v, of ?cur]
  note t1 = conjunct1 [OF t]
  note t2 = conjunct1 [OF conjunct2 [OF t]]
  note t3 = conjunct1 [OF mp [OF conjunct1 [OF conjunct2 [OF conjunct2 [OF t]]] wf]]
  have f: "files (snd (update_lib example_env ?cur False same_version_world))
             = (files same_version_world)
                 (''/opt/tls_client/dependencies/version.txt'' \<mapsto>
                    version_file_text ''v1.2.0'' ''2024-01-02T09:00:00Z''
                      ''2024-01-03T00:00:00+00:00'' (Some ''etag-2''))"
    using t3 by (simp add: p example_now e)
  have f': "files (snd (update_lib example_env ?cur False same_version_world))
              (LOCAL_VERSION_FILE example_env)
             = Some (version_file_text ''v1.2.0'' ''2024-01-02T09:00:00Z''
                       ''2024-01-03T00:00:00+00:00'' (Some ''etag-2''))"
    by (simp add: f p)
  have rb: "fst (read_local_version example_env
                   (snd (update_lib example_env ?cur False same_version_world)))
       = Some [(''version'', Some ''v1.2.0''), (''last_modified'', Some ''2024-01-02T09:00:00Z''),
               (''last_check'', Some ''2024-01-03T00:00:00+00:00''), (''Etag'', Some ''etag-2'')]"
    by (subst read_local_version_of_text [OF f']) (simp_all add: example_env_def is_linebreak_def)
  have c': "fst (should_check_update null_published_env same_version_world)"
    unfolding same_version_world_def
    by (rule example_check_due_version)
      (simp_all add: null_published_env_def example_env_def is_linebreak_def)
  have g': "fst (get_latest_release null_published_env same_version_world)
              = Some (?null, Some ''etag-2'')"
    by (simp add: get_latest_release_fst null_published_env_def example_release_def)
  have r': "fst (read_local_version null_published_env same_version_world) = Some ?D"
    unfolding same_version_world_def
    by (subst example_read)
      (simp_all add: null_published_env_def example_env_def is_linebreak_def)
  have v': "dict_get ?D ''version'' = Some (tag_name ?null)"
    by (simp add: dict_get_def example_release_def)
  have wf': "write_fault null_published_env = NoFault"
    by (simp add: null_published_env_def example_env_def)
  have p': "LOCAL_VERSION_FILE null_published_env = ''/opt/tls_client/dependencies/version.txt''"
    by (rule example_version_file) (simp add: null_published_env_def example_env_def)
  have n': "isoformat (datetime_now_utc null_published_env) = ''2024-01-03T00:00:00+00:00''"
    using example_now by (simp add: null_published_env_def datetime_now_utc_def)
  have e': "tag_name ?null = ''v1.2.0''"
    "str_of (published_at_or_now null_published_env ?null) = ''None''"
    by (simp_all add: example_release_def published_at_or_now_def str_of_def)
  note u = update_lib_same_version [OF c' g' r' v', of ?cur]
  note u3 = conjunct1 [OF mp [OF conjunct1 [OF conjunct2 [OF conjunct2 [OF u]]] wf']]
  have fn: "files (snd (update_lib null_published_env ?cur False same_version_world))
             = (files same_version_world)
                 (''/opt/tls_client/dependencies/version.txt'' \<mapsto>
                    version_file_text ''v1.2.0'' ''None'' ''2024-01-03T00:00:00+00:00''
                      (Some ''etag-2''))"
    using u3 by (simp add: p' n' e')
  have snt: "sent (snd (update_lib example_env ?cur False same_version_world))
               = [GetRelease [(''If-None-Match'', Some ''etag-1'')]]"
    using t2 by (simp add: h s)
  from c g r e(1) wf t1 snt f rb g' fn show ?thesis by blast
qed

text \<open>The record file of \<open>same_version_world\<close> is read-only on \<open>readonly_record_env\<close>. The
  run finds the stored version equal to the tag of the release and returns \<open>True\<close>, but
  the record is not refreshed: no file changes, and the record read after the run still has
  the \<^verbatim>\<open>last_check\<close> of 48 hours ago and the token \<^verbatim>\<open>etag-1\<close>, so the next call checks
  again.\<close>

theorem update_lib_same_version_write_fails:
  "fst (should_check_update readonly_record_env same_version_world)
   \<and> fst (get_latest_release readonly_record_env same_version_world)
       = Some (example_release, Some ''etag-2'')
   \<and> fst (read_local_version readonly_record_env same_version_world)
       = Some [(''version'', Some ''v1.2.0''), (''last_modified'', Some ''2023-12-01T00:00:00Z''),
               (''last_check'', Some ''2024-01-01T00:00:00+00:00''), (''Etag'', Some ''etag-1'')]
   \<and> tag_name example_release = ''v1.2.0''
   \<and> fst (update_lib readonly_record_env ''tls-client-linux-amd64.so'' False same_version_world)
       = Inr True
   \<and> files (snd (update_lib readonly_record_env ''tls-client-linux-amd64.so'' False
                   same_version_world))
       = files same_version_world
   \<and> stdout (snd (update_lib readonly_record_env ''tls-client-linux-amd64.so'' False
                    same_version_world))
       = [ErrorSavingVersionFile]
   \<and> fst (read_local_version readonly_record_env
            (snd (update_lib readonly_record_env ''tls-client-linux-amd64.so'' False
                    same_version_world)))
       = Some [(''version'', Some ''v1.2.0''), (''last_modified'', Some ''2023-12-01T00:00:00Z''),
               (''last_check'', Some ''2024-01-01T00:00:00+00:00''), (''Etag'', Some ''etag-1'')]
   \<and> fst (should_check_update readonly_record_env
            (snd (update_lib readonly_record_env ''tls-client-linux-amd64.so'' False
                    same_version_world)))"
proof -
  let ?D = "[(''version'', Some ''v1.2.0''), (''last_modified'', Some ''2023-12-01T00:00:00Z''),
             (''last_check'', Some ''2024-01-01T00:00:00+00:00''), (''Etag'', Some ''etag-1'')]"
  let ?cur = "''tls-client-linux-amd64.so''"
  let ?e = readonly_record_env
  let ?old = "version_file_text ''v1.2.0'' ''2023-12-01T00:00:00Z'' ''2024-01-01T00:00:00+00:00''
                (Some ''etag-1'')"
  have c: "fst (should_check_update ?e same_version_world)"
    unfolding same_version_world_def
    by (rule example_check_due_version)
      (simp_all add: readonly_record_env_def example_env_def is_linebreak_def)
  have g: "fst (get_latest_release ?e same_version_world)
             = Some (example_release, Some ''etag-2'')"
    by (simp add: get_latest_release_fst readonly_record_env_def example_env_def
        example_release_def)
  have r: "fst (read_local_version ?e same_version_world) = Some ?D"
    unfolding same_version_world_def
    by (subst example_read)
      (simp_all add: readonly_record_env_def example_env_def is_linebreak_def)
  have v: "dict_get ?D ''version'' = Some (tag_name example_release)"
    by (simp add: dict_get_def example_release_def)
  have e: "tag_name example_release = ''v1.2.0''"
    by (simp add: example_release_def)
  have wf: "write_fault ?e = Fault (Some ?old)"
    by (simp add: readonly_record_env_def)
  have p: "LOCAL_VERSION_FILE ?e = ''/opt/tls_client/dependencies/version.txt''"
    by (rule example_version_file) (simp add: readonly_record_env_def example_env_def)
  have o: "(files same_version_world)(''/opt/tls_client/dependencies/version.txt'' \<mapsto> ?old)
             = files same_version_world"
    by (rule ext) (simp add: same_version_world_def example_world_def)
  have s: "stdout same_version_world = []"
    by (simp add: same_version_world_def example_world_def)
  let ?w = "snd (update_lib ?e ?cur False same_version_world)"
  have u: "update_lib ?e ?cur False same_version_world =
             (Inr True,
              save_local_version ?e (tag_name example_release)
                (str_of (published_at_or_now ?e example_release)) (Some ''etag-2'')
                (same_version_world\<lparr>sent := sent same_version_world
                                       @ [GetRelease (request_headers ?e (Some ?D))]\<rparr>))"
    by (rule update_lib_same_version_world [OF c g r v])
  have t: "fst (update_lib ?e ?cur False same_version_world) = Inr True"
    by (simp add: u)
  have f: "files ?w = files same_version_world"
    by (simp add: u save_local_version_def py_print_def wf p o Let_def)
  have m: "stdout ?w = [ErrorSavingVersionFile]"
    by (simp add: u save_local_version_def py_print_def wf s Let_def)
  have rb: "fst (read_local_version ?e ?w) = Some ?D"
    using read_local_version_cong [of ?w ?e same_version_world] f r by simp
  have "fst (should_check_update ?e ?w) = fst (should_check_update ?e same_version_world)"
    by (simp add: should_check_update_fst rb r)
  with c have c2: "fst (should_check_update ?e ?w)" by simp
  from c g r e t f m rb c2 show ?thesis by blast
qed



text \<open>
  C10. When the record file can be read and has at least three lines, the dict that
  \<open>read_local_version\<close> returns is not empty and has the key \<^verbatim>\<open>Etag\<close>, bound to the fourth
  line, or to \<^verbatim>\<open>None\<close> when there is no fourth line. So the test of \<open>get_latest_release\<close>
  succeeds, and the headers of the request it sends bind \<^verbatim>\<open>If-None-Match\<close> to that value:
  to \<^verbatim>\<open>None\<close> when no token was stored.
\<close>

theorem read_local_version_defines_Etag:
  assumes "files w (LOCAL_VERSION_FILE e) = Some content" and "\<not> read_fails e"
    and "length (splitlines (universal_newlines content)) \<ge> 3"
  shows "\<exists>d. fst (read_local_version e w) = Some d
           \<and> d \<noteq> [] \<and> dict_has d ''Etag''
           \<and> map_of d ''Etag'' =
               Some (if length (splitlines (universal_newlines content)) \<ge> 4
                     then Some (splitlines (universal_newlines content) ! 3) else None)
           \<and> sent (snd (get_latest_release e w)) =
               sent w @ [GetRelease (request_headers e (Some d))]
           \<and> map_of (request_headers e (Some d)) ''If-None-Match'' =
               Some (if length (splitlines (universal_newlines content)) \<ge> 4
                     then Some (splitlines (universal_newlines content) ! 3) else None)"
proof -
  let ?ls = "splitlines (universal_newlines content)"
  let ?d = "[(''version'', Some (?ls ! 0)), (''last_modified'', Some (?ls ! 1)),
             (''last_check'', Some (?ls ! 2)),
             (''Etag'', if length ?ls \<ge> 4 then Some (?ls ! 3) else None)]"
  have r: "fst (read_local_version e w) = Some ?d"
    using assms by (simp add: read_local_version_fst)
  have h: "dict_has ?d ''Etag''" by (simp add: dict_has_def)
  have m: "map_of (request_headers e (Some ?d)) ''If-None-Match'' =
             Some (if length ?ls \<ge> 4 then Some (?ls ! 3) else None)"
    unfolding request_headers_def Let_def using h
    by (simp add: update_conv' dict_get_def)
  show ?thesis
    using r h m get_latest_release_sent [of e w] by (intro exI [of _ ?d]) simp
qed

theorem read_local_version_defines_Etag_witness:
  "files no_token_world (LOCAL_VERSION_FILE example_env)
     = Some (version_file_text ''v1.1.0'' ''2023-12-01T00:00:00Z'' ''2024-01-01T00:00:00+00:00'' None)
   \<and> \<not> read_fails example_env
   \<and> length (splitlines (universal_newlines
        (version_file_text ''v1.1.0'' ''2023-12-01T00:00:00Z'' ''2024-01-01T00:00:00+00:00'' None)))
       = 3
   \<and> fst (read_local_version example_env no_token_world)
       = Some [(''version'', Some ''v1.1.0''), (''last_modified'', Some ''2023-12-01T00:00:00Z''),
               (''last_check'', Some ''2024-01-01T00:00:00+00:00''), (''Etag'', None)]
   \<and> sent (snd (get_latest_release example_env no_token_world))
       = [GetRelease [(''If-None-Match'', None)]]"
proof -
  let ?txt = "version_file_text ''v1.1.0'' ''2023-12-01T00:00:00Z'' ''2024-01-01T00:00:00+00:00'' None"
  let ?D = "[(''version'', Some ''v1.1.0''), (''last_modified'', Some ''2023-12-01T00:00:00Z''),
             (''last_check'', Some ''2024-01-01T00:00:00+00:00''), (''Etag'', None)]"
  have f: "files no_token_world (LOCAL_VERSION_FILE example_env) = Some ?txt"
    by (simp add: no_token_world_def example_version_file example_env_def)
  have n: "\<not> read_fails example_env" by (simp add: example_env_def)
  have l: "splitlines (universal_newlines ?txt) =
             [''v1.1.0'', ''2023-12-01T00:00:00Z'', ''2024-01-01T00:00:00+00:00'']"
    using splitlines_version_file_text [of "''v1.1.0''" "''2023-12-01T00:00:00Z''"
        "''2024-01-01T00:00:00+00:00''" None]
    by (simp add: is_linebreak_def)
  have g: "3 \<le> length (splitlines (universal_newlines ?txt))" by (simp add: l)
  from read_local_version_defines_Etag [OF f n g] obtain d where
    d: "fst (read_local_version example_env no_token_world) = Some d"
      "sent (snd (get_latest_release example_env no_token_world)) =
         sent no_token_world @ [GetRelease (request_headers example_env (Some d))]"
      "map_of d ''Etag'' = Some None"
    by (auto simp: l)
  have r: "fst (read_local_version example_env no_token_world) = Some ?D"
    by (simp add: read_local_version_fst f n l)
  with d(1) have "d = ?D" by simp
  moreover have "request_headers example_env (Some ?D) = [(''If-None-Match'', None)]"
    by (simp add: request_headers_def dict_has_def dict_get_def example_env_def)
  moreover have "sent no_token_world = []" by (simp add: no_token_world_def)
  ultimately show ?thesis using f n l r d(2) by simp
qed

end
